theory Spec2Isabelle
  imports Complex_Main
begin

section \<open>The tensor engine\<close>

text \<open>
  Modelled from the spec: the tensor type of the host engine \<^verbatim>\<open>tfc\<close>
  (\<^verbatim>\<open>@tensorflow/tfjs-core\<close>), against which the layers are written and whose code
  lies outside the layers. The specification describes a tensor as an immutable
  N-dimensional array of numbers with a fixed shape and row-major element order (the last
  axis varies fastest): here, a shape and the flat list of the elements. The elements of a
  \<open>tensor\<close> are real numbers: the arithmetic is that of exact reals, not of 32-bit
  floats, so the theorems tell which operations a layer applies and to which elements, not
  how the engine rounds. A division is the one operation of the layers that leaves the
  finite numbers: the elements of a \<open>quotient\<close> are optional, and \<open>None\<close> stands for
  an element that the engine holds as NaN or as an infinity. Where a layer takes
  \<^verbatim>\<open>Tensor | Tensor[]\<close>, the model takes the one tensor that
  \<^verbatim>\<open>getExactlyOneTensor\<close> extracts.
\<close>

record 'a ndarray =
  shape :: "nat list"
  vals :: "'a list"

type_synonym tensor = "real ndarray"

type_synonym quotient = "real option ndarray"

text \<open>Errors. \<open>ValueError\<close> is raised by the layers' own code, \<open>TypeError\<close> and
  \<open>RangeError\<close> by JavaScript (reading a property of \<^verbatim>\<open>null\<close>, allocating a typed
  array of negative length); \<open>ShapeMismatch\<close> and \<open>IndexOutOfRange\<close> stand for the engine
  rejecting its arguments.\<close>

datatype error = ValueError | TypeError | RangeError | ShapeMismatch | IndexOutOfRange

definition ebind :: "error + 'a \<Rightarrow> ('a \<Rightarrow> error + 'b) \<Rightarrow> error + 'b" where
  "ebind m f = (case m of Inl e \<Rightarrow> Inl e | Inr v \<Rightarrow> f v)"

definition wf_tensor :: "'a ndarray \<Rightarrow> bool" where
  "wf_tensor x = (length (vals x) = prod_list (shape x))"

text \<open>Row-major addressing: the flat position of a multi-index and its inverse.\<close>

fun ravel :: "nat list \<Rightarrow> nat list \<Rightarrow> nat" where
  "ravel (d # ds) (i # is) = i * prod_list ds + ravel ds is"
| "ravel _ _ = 0"

fun unravel :: "nat list \<Rightarrow> nat \<Rightarrow> nat list" where
  "unravel [] k = []"
| "unravel (d # ds) k = (k div prod_list ds) # unravel ds (k mod prod_list ds)"

definition valid_index :: "nat list \<Rightarrow> nat list \<Rightarrow> bool" where
  "valid_index sh i = list_all2 (\<lambda>k d. k < d) i sh"

fun all_indices :: "nat list \<Rightarrow> nat list list" where
  "all_indices [] = [[]]"
| "all_indices (d # ds) = concat (map (\<lambda>k. map ((#) k) (all_indices ds)) [0..<d])"

definition tget :: "'a ndarray \<Rightarrow> nat list \<Rightarrow> 'a" where
  "tget x i = vals x ! ravel (shape x) i"

definition tensor_of :: "nat list \<Rightarrow> (nat list \<Rightarrow> 'a) \<Rightarrow> 'a ndarray" where
  "tensor_of sh f = \<lparr>shape = sh, vals = map (\<lambda>k. f (unravel sh k)) [0..<prod_list sh]\<rparr>"

definition scalar :: "real \<Rightarrow> tensor" where
  "scalar v = \<lparr>shape = [], vals = [v]\<rparr>"

text \<open>Modelled from the spec: the engine's gather (slice-by-index) primitive,
  \<^verbatim>\<open>x.gather(indices, axis)\<close>. The result has the length of \<open>indices\<close> on \<open>axis\<close>
  and holds, at position \<open>k\<close> of that axis, the slice of \<open>x\<close> at position \<open>indices[k]\<close>.
  What the engine does with an index outside the axis depends on its version (an exception,
  or unspecified values); the model reports it as \<open>IndexOutOfRange\<close> and no theorem below
  relies on it.\<close>

definition gather :: "tensor \<Rightarrow> int list \<Rightarrow> nat \<Rightarrow> error + tensor" where
  "gather x indices axis =
     (if length (shape x) \<le> axis then Inl ShapeMismatch
      else if list_ex (\<lambda>k. k < 0 \<or> int (shape x ! axis) \<le> k) indices then Inl IndexOutOfRange
      else Inr (tensor_of ((shape x)[axis := length indices])
                  (\<lambda>i. tget x (i[axis := nat (indices ! (i ! axis))]))))"

text \<open>Modelled from the spec: the engine's concatenation primitive for two tensors,
  \<^verbatim>\<open>tfc.concat([a, b], axis)\<close>: \<open>a\<close> followed by \<open>b\<close> along \<open>axis\<close>; the other
  dimensions must agree.\<close>

definition concat2 :: "tensor \<Rightarrow> tensor \<Rightarrow> nat \<Rightarrow> error + tensor" where
  "concat2 a b axis =
     (if length (shape a) \<le> axis \<or> (shape a)[axis := 0] \<noteq> (shape b)[axis := 0]
      then Inl ShapeMismatch
      else Inr (tensor_of ((shape a)[axis := shape a ! axis + shape b ! axis])
                  (\<lambda>i. if i ! axis < shape a ! axis then tget a i
                       else tget b (i[axis := i ! axis - shape a ! axis]))))"

text \<open>Modelled from the spec: elementwise arithmetic with the engine's broadcasting.
  Shapes are aligned at their last axis; a missing or size-1 dimension is stretched to the
  other operand's, and two dimensions that differ and are both not 1 are rejected.\<close>

fun broadcast_rev :: "nat list \<Rightarrow> nat list \<Rightarrow> nat list option" where
  "broadcast_rev [] bs = Some bs"
| "broadcast_rev as [] = Some as"
| "broadcast_rev (a # as) (b # bs) =
     (if a = 1 then map_option ((#) b) (broadcast_rev as bs)
      else if b = 1 then map_option ((#) a) (broadcast_rev as bs)
      else if a \<noteq> b then None
      else map_option ((#) a) (broadcast_rev as bs))"

definition broadcast_shapes :: "nat list \<Rightarrow> nat list \<Rightarrow> nat list option" where
  "broadcast_shapes a b = map_option rev (broadcast_rev (rev a) (rev b))"

definition bcast_index :: "nat list \<Rightarrow> nat list \<Rightarrow> nat list" where
  "bcast_index sh i = map2 (\<lambda>d k. if d = 1 then 0 else k) sh (drop (length i - length sh) i)"

definition broadcast_op ::
  "('a \<Rightarrow> 'b \<Rightarrow> 'c) \<Rightarrow> 'a ndarray \<Rightarrow> 'b ndarray \<Rightarrow> error + 'c ndarray" where
  "broadcast_op f a b =
     (case broadcast_shapes (shape a) (shape b) of
        None \<Rightarrow> Inl ShapeMismatch
      | Some s \<Rightarrow> Inr (tensor_of s
          (\<lambda>i. f (tget a (bcast_index (shape a) i)) (tget b (bcast_index (shape b) i)))))"

definition tadd :: "tensor \<Rightarrow> tensor \<Rightarrow> error + tensor" where
  "tadd = broadcast_op (+)"

definition tsub :: "tensor \<Rightarrow> tensor \<Rightarrow> error + tensor" where
  "tsub = broadcast_op (-)"

definition tmul :: "tensor \<Rightarrow> tensor \<Rightarrow> error + tensor" where
  "tmul = broadcast_op (*)"

text \<open>Modelled from the spec: elementwise division. Division does not throw in
  JavaScript: an element with a zero divisor becomes NaN (for \<open>0 / 0\<close>) or an infinity,
  and the computation goes on with the other elements as they are. The multiplication and
  the addition that a layer applies to a quotient leave such an element not finite
  (NaN times or plus anything is NaN; an infinity times a number is an infinity or NaN, and
  an infinity plus a number is that infinity).\<close>

definition tdiv :: "tensor \<Rightarrow> tensor \<Rightarrow> error + quotient" where
  "tdiv = broadcast_op (\<lambda>a b. if b = 0 then None else Some (a / b))"

definition qmul :: "quotient \<Rightarrow> tensor \<Rightarrow> error + quotient" where
  "qmul = broadcast_op (\<lambda>a b. map_option (\<lambda>v. v * b) a)"

definition qadd :: "quotient \<Rightarrow> tensor \<Rightarrow> error + quotient" where
  "qadd = broadcast_op (\<lambda>a b. map_option (\<lambda>v. v + b) a)"

text \<open>A tensor as a quotient all of whose elements are finite.\<close>

definition finite_quotient :: "tensor \<Rightarrow> quotient" where
  "finite_quotient t = \<lparr>shape = shape t, vals = map Some (vals t)\<rparr>"

text \<open>Modelled from the spec: the elementwise square root.\<close>

definition tsqrt :: "tensor \<Rightarrow> tensor" where
  "tsqrt x = \<lparr>shape = shape x, vals = map sqrt (vals x)\<rparr>"

text \<open>Modelled from the spec: the engine's reshape: the same elements in the same order
  under a new shape of the same size.\<close>

definition reshape :: "tensor \<Rightarrow> nat list \<Rightarrow> error + tensor" where
  "reshape x sh =
     (if prod_list sh \<noteq> prod_list (shape x) then Inl ShapeMismatch
      else Inr \<lparr>shape = sh, vals = vals x\<rparr>)"

text \<open>Modelled from the spec: the engine's reduction \<^verbatim>\<open>tfc.moments(x, axes)\<close>: mean and
  variance of \<open>x\<close> over the listed axes, which disappear from the result's shape. The
  variance is the mean squared deviation (divisor: the number of reduced elements, not one
  less). \<open>keep_axes\<close> projects a shape or an index to the axes that are not reduced.\<close>

definition keep_axes :: "nat list \<Rightarrow> 'a list \<Rightarrow> 'a list" where
  "keep_axes axes xs = map (\<lambda>k. xs ! k) (filter (\<lambda>k. k \<notin> set axes) [0..<length xs])"

definition moments :: "tensor \<Rightarrow> nat list \<Rightarrow> tensor \<times> tensor" where
  "moments x axes =
     (let sh = shape x;
          n = real (prod_list (map (\<lambda>k. sh ! k) axes));
          group = (\<lambda>j. filter (\<lambda>i. keep_axes axes i = j) (all_indices sh));
          mean = tensor_of (keep_axes axes sh) (\<lambda>j. sum_list (map (tget x) (group j)) / n);
          variance = tensor_of (keep_axes axes sh)
            (\<lambda>j. sum_list (map (\<lambda>i. (tget x i - tget mean j)\<^sup>2) (group j)) / n)
      in (mean, variance))"

text \<open>Modelled from the spec: the engine's product \<^verbatim>\<open>tfc.dot(v, m)\<close> of a vector (here a
  plain number array) and a matrix: the vector-matrix product, a vector with one entry per
  column of \<open>m\<close>. The engine's other rank combinations are not used by the layers and are
  not modelled.\<close>

definition dot :: "real list \<Rightarrow> tensor \<Rightarrow> error + tensor" where
  "dot v m =
     (if length (shape m) \<noteq> 2 \<or> shape m ! 0 \<noteq> length v then Inl ShapeMismatch
      else Inr (tensor_of [shape m ! 1]
                  (\<lambda>j. sum_list (map (\<lambda>s. v ! s * tget m [s, j ! 0]) [0..<length v]))))"

text \<open>Modelled from the spec: the initializers \<^verbatim>\<open>ones\<close> and \<^verbatim>\<open>zeros\<close> with
  which \<^verbatim>\<open>build\<close> has \<^verbatim>\<open>addWeight\<close> allocate the weights.\<close>

definition ones :: "nat list \<Rightarrow> tensor" where
  "ones sh = \<lparr>shape = sh, vals = replicate (prod_list sh) 1\<rparr>"

definition zeros :: "nat list \<Rightarrow> tensor" where
  "zeros sh = \<lparr>shape = sh, vals = replicate (prod_list sh) 0\<rparr>"

section \<open>Reflection padding (\<^verbatim>\<open>reflectionpadding.ts\<close>)\<close>

text \<open>\<^verbatim>\<open>reflection2dPadding(x, padding)\<close>. The function reads one number of its \<open>padding\<close>
  argument, \<^verbatim>\<open>padding[0][0]\<close>, and builds the four borders from it with gather and
  concat: right and left on axis 2, then top and bottom on axis 1 of the widened result.
  The pair of pairs is \<^verbatim>\<open>[[top, bottom], [left, right]]\<close>.\<close>

definition reflection2dPadding ::
  "tensor \<Rightarrow> (int \<times> int) \<times> (int \<times> int) \<Rightarrow> error + tensor" where
  "reflection2dPadding x padding =
     (let paddingNum = fst (fst padding);
          width = int (shape x ! 2);
          height = int (shape x ! 1);
          rightIndex = map (\<lambda>i. width - i) [1..paddingNum];
          leftTopIndex = rev [0..paddingNum - 1]
      in ebind (gather x rightIndex 2) (\<lambda>b.
         ebind (concat2 x b 2) (\<lambda>result.
         ebind (gather x leftTopIndex 2) (\<lambda>b.
         ebind (concat2 b result 2) (\<lambda>result.
         ebind (gather result leftTopIndex 1) (\<lambda>b.
         ebind (concat2 b result 1) (\<lambda>result.
         let bottomIndex = map (\<lambda>i. height + paddingNum - i) [1..paddingNum]
         in ebind (gather result bottomIndex 1) (\<lambda>b.
            concat2 result b 1))))))))"

text \<open>The two halves of \<open>reflection2dPadding\<close>, named so that lemmas can speak about each
  axis: the first four steps widen axis 2, the last four pad axis 1. The height is a
  parameter of the second half because the source reads it from the original input.\<close>

definition pad_cols :: "tensor \<Rightarrow> int \<Rightarrow> error + tensor" where
  "pad_cols x paddingNum =
     (let width = int (shape x ! 2);
          rightIndex = map (\<lambda>i. width - i) [1..paddingNum];
          leftTopIndex = rev [0..paddingNum - 1]
      in ebind (gather x rightIndex 2) (\<lambda>b.
         ebind (concat2 x b 2) (\<lambda>result.
         ebind (gather x leftTopIndex 2) (\<lambda>b.
         concat2 b result 2))))"

definition pad_rows :: "int \<Rightarrow> tensor \<Rightarrow> int \<Rightarrow> error + tensor" where
  "pad_rows height result paddingNum =
     (let leftTopIndex = rev [0..paddingNum - 1]
      in ebind (gather result leftTopIndex 1) (\<lambda>b.
         ebind (concat2 b result 1) (\<lambda>result.
         let bottomIndex = map (\<lambda>i. height + paddingNum - i) [1..paddingNum]
         in ebind (gather result bottomIndex 1) (\<lambda>b.
            concat2 result b 1))))"

text \<open>The layer class. Its \<open>padding\<close> option is a number, an array of numbers or an array
  of arrays of numbers; the constructor checks the lengths of the arrays and nothing else.\<close>

datatype padding_arg = PadNumber int | PadNumbers "int list" | PadArrays "int list list"

record ReflectionPadding2DLayerArgs =
  arg_padding :: "padding_arg option"
  arg_dim_ordering :: "string option"

record ReflectionPadding2D =
  dim_ordering :: string
  padding :: "(int \<times> int) \<times> (int \<times> int)"

definition ReflectionPadding2D_constructor ::
  "ReflectionPadding2DLayerArgs \<Rightarrow> error + ReflectionPadding2D" where
  "ReflectionPadding2D_constructor args =
     (let ordering = (case arg_dim_ordering args of None \<Rightarrow> ''default'' | Some d \<Rightarrow> d)
      in case arg_padding args of
           None \<Rightarrow> Inr \<lparr>dim_ordering = ordering, padding = ((1, 1), (1, 1))\<rparr>
         | Some (PadNumber n) \<Rightarrow> Inr \<lparr>dim_ordering = ordering, padding = ((n, n), (n, n))\<rparr>
         | Some (PadNumbers ns) \<Rightarrow>
             if length ns \<noteq> 2 then Inl ValueError
             else Inr \<lparr>dim_ordering = ordering,
                       padding = ((ns ! 0, ns ! 0), (ns ! 1, ns ! 1))\<rparr>
         | Some (PadArrays as) \<Rightarrow>
             if length as \<noteq> 2 then Inl ValueError
             else if length (as ! 0) \<noteq> 2 then Inl ValueError
             else if length (as ! 1) \<noteq> 2 then Inl ValueError
             else Inr \<lparr>dim_ordering = ordering,
                       padding = ((as ! 0 ! 0, as ! 0 ! 1), (as ! 1 ! 0, as ! 1 ! 1))\<rparr>)"

text \<open>\<^verbatim>\<open>computeOutputShape\<close>. A dimension of a symbolic shape may be unknown
  (\<^verbatim>\<open>null\<close>); reading past the end of the shape array gives \<^verbatim>\<open>undefined\<close>, which
  the test \<^verbatim>\<open>!= null\<close> treats alike.\<close>

definition dim_at :: "int option list \<Rightarrow> nat \<Rightarrow> int option" where
  "dim_at inputShape k = (if k < length inputShape then inputShape ! k else None)"

definition computeOutputShape :: "ReflectionPadding2D \<Rightarrow> int option list \<Rightarrow> int option list" where
  "computeOutputShape layer inputShape =
     (let rows = (case dim_at inputShape 1 of
                    Some d \<Rightarrow> if d \<ge> 0
                             then Some (d + fst (fst (padding layer)) + snd (fst (padding layer)))
                             else None
                  | None \<Rightarrow> None);
          cols = (case dim_at inputShape 2 of
                    Some d \<Rightarrow> if d \<ge> 0
                             then Some (d + fst (snd (padding layer)) + snd (snd (padding layer)))
                             else None
                  | None \<Rightarrow> None)
      in [dim_at inputShape 0, rows, cols, dim_at inputShape 3])"

definition ReflectionPadding2D_call :: "ReflectionPadding2D \<Rightarrow> tensor \<Rightarrow> error + tensor" where
  "ReflectionPadding2D_call layer inputs = reflection2dPadding inputs (padding layer)"

text \<open>The index map of the padding as the code computes it: output position \<open>j\<close> of an
  axis of extent \<open>n\<close>, padded by \<open>p\<close> on both sides, reads source position
  \<open>symIndex p n j\<close>. The border repeats the edge element.\<close>

definition symIndex :: "nat \<Rightarrow> nat \<Rightarrow> nat \<Rightarrow> nat" where
  "symIndex p n j = (if j < p then p - 1 - j else if j < p + n then j - p else 2 * n + p - 1 - j)"

text \<open>The index map of the specification, which does not repeat the edge: relative index
  \<open>-k\<close> reads source \<open>k\<close>, and \<open>n - 1 + k\<close> reads \<open>n - 1 - k\<close>.\<close>

definition reflect_spec :: "int \<Rightarrow> int \<Rightarrow> int" where
  "reflect_spec r n = (if r < 0 then - r else if r \<ge> n then 2 * (n - 1) - r else r)"

section \<open>Instance normalization (\<^verbatim>\<open>instancenormalization.ts\<close>)\<close>

text \<open>Modelled from the spec: the helpers \<^verbatim>\<open>math_utils.range\<close> and
  \<^verbatim>\<open>generic_utils.pyListRepeat\<close> of the layers library, with which \<^verbatim>\<open>call\<close>
  lists the axes and builds the shape of all ones. With them, two operations of JavaScript
  arrays as \<^verbatim>\<open>call\<close> uses them: \<^verbatim>\<open>splice(start, 1)\<close>, where a negative start counts
  from the end and a start past the end removes nothing, and the assignment
  \<^verbatim>\<open>a[k] = v\<close>, which changes an element only when \<open>k\<close> is a position of the array:
  a negative \<open>k\<close> leaves the elements alone, and a \<open>k\<close> past the end leaves holes, after
  which the array is no shape (\<open>None\<close>).\<close>

definition range_js :: "nat \<Rightarrow> nat \<Rightarrow> nat list" where
  "range_js lower upper = [lower..<upper]"

definition pyListRepeat :: "'a \<Rightarrow> nat \<Rightarrow> 'a list" where
  "pyListRepeat v n = replicate n v"

definition splice1 :: "'a list \<Rightarrow> int \<Rightarrow> 'a list" where
  "splice1 xs start =
     (let n = int (length xs);
          s = nat (if start < 0 then max (n + start) 0 else min start n)
      in take s xs @ drop (Suc s) xs)"

definition assign_dim :: "nat list \<Rightarrow> int \<Rightarrow> nat list \<Rightarrow> nat list option" where
  "assign_dim broadcastShape axis inputShape =
     (if axis < 0 then Some broadcastShape
      else if nat axis < length broadcastShape \<and> nat axis < length inputShape
      then Some (broadcastShape[nat axis := inputShape ! nat axis])
      else None)"

definition reshape_to :: "tensor \<Rightarrow> nat list option \<Rightarrow> error + tensor" where
  "reshape_to x sh = (case sh of None \<Rightarrow> Inl ShapeMismatch | Some s \<Rightarrow> reshape x s)"

text \<open>A weight of a layer is \<^verbatim>\<open>null\<close> until \<^verbatim>\<open>build\<close> creates it; reading a
  \<^verbatim>\<open>null\<close> weight is a JavaScript \<^verbatim>\<open>TypeError\<close>.\<close>

definition read_weight :: "tensor option \<Rightarrow> error + tensor" where
  "read_weight w = (case w of None \<Rightarrow> Inl TypeError | Some t \<Rightarrow> Inr t)"

text \<open>The options \<open>center\<close> and \<open>scale\<close> are optional booleans that the constructor
  stores as given; the code tests them for truthiness, so an absent option counts as
  false. The regularizer and constraint options play no part in the forward pass and are
  left out.\<close>

definition truthy :: "bool option \<Rightarrow> bool" where
  "truthy b = (case b of None \<Rightarrow> False | Some v \<Rightarrow> v)"

record InstanceNormalizationLayerArgs =
  arg_axis :: "int option"
  arg_epsilon :: "real option"
  arg_center :: "bool option"
  arg_scale :: "bool option"

record InstanceNormalization =
  axis :: int
  epsilon :: real
  center :: "bool option"
  scale :: "bool option"
  gamma :: "tensor option"
  beta :: "tensor option"

definition InstanceNormalization_constructor ::
  "InstanceNormalizationLayerArgs \<Rightarrow> InstanceNormalization" where
  "InstanceNormalization_constructor args =
     \<lparr>axis = (case arg_axis args of None \<Rightarrow> - 1 | Some a \<Rightarrow> a),
      epsilon = (case arg_epsilon args of None \<Rightarrow> 1 / 1000 | Some e \<Rightarrow> e),
      center = arg_center args,
      scale = arg_scale args,
      gamma = None,
      beta = None\<rparr>"

definition InstanceNormalization_build ::
  "InstanceNormalization \<Rightarrow> nat option list \<Rightarrow> error + InstanceNormalization" where
  "InstanceNormalization_build layer inputShape =
     (let ax = (if axis layer \<ge> 0 then axis layer else axis layer + int (length inputShape));
          dim = (if 0 \<le> ax \<and> nat ax < length inputShape then inputShape ! nat ax else None)
      in case dim of
           None \<Rightarrow> Inl ValueError
         | Some d \<Rightarrow>
             Inr (layer\<lparr>gamma := (if truthy (scale layer) then Some (ones [d]) else None),
                        beta := (if truthy (center layer) then Some (zeros [d]) else None)\<rparr>))"

text \<open>\<^verbatim>\<open>call\<close>. The reduction axes are all axes except the channel axis; the moments
  come back without the reduced axes, that is with shape \<open>[channels]\<close>, and are
  subtracted and divided by broadcasting. The value returned is \<open>normed\<close>, a quotient:
  its elements with a zero divisor are not finite.\<close>

definition InstanceNormalization_call :: "InstanceNormalization \<Rightarrow> tensor \<Rightarrow> error + quotient" where
  "InstanceNormalization_call layer input =
     (let inputShape = shape input;
          ndim = length inputShape;
          reductionAxes = range_js 0 ndim;
          ax = (if axis layer \<ge> 0 then axis layer else axis layer + int ndim);
          reductionAxes = splice1 reductionAxes ax;
          broadcastShape = assign_dim (pyListRepeat 1 ndim) ax inputShape
      in ebind (if truthy (center layer)
                then ebind (read_weight (beta layer)) (\<lambda>b. map_sum id Some (reshape_to b broadcastShape))
                else Inr None) (\<lambda>broadcastBeta.
         ebind (if truthy (scale layer)
                then ebind (read_weight (gamma layer)) (\<lambda>g. map_sum id Some (reshape_to g broadcastShape))
                else Inr None) (\<lambda>broadcastGamma.
         let meanAndVar = moments input reductionAxes;
             mean = fst meanAndVar;
             variance = snd meanAndVar
         in ebind (tadd (tsqrt variance) (scalar (epsilon layer))) (\<lambda>stddev.
            ebind (tsub input mean) (\<lambda>centred.
            ebind (tdiv centred stddev) (\<lambda>normed.
            ebind (if truthy (scale layer)
                   then ebind (read_weight broadcastGamma) (qmul normed)
                   else Inr normed) (\<lambda>normed.
            if truthy (center layer)
            then ebind (read_weight broadcastBeta) (qadd normed)
            else Inr normed)))))))"

section \<open>Conditional instance normalization (\<^verbatim>\<open>conditionalinstancenormalization.ts\<close>)\<close>

text \<open>The conditional layer has the options and weights of the plain one, a number of
  styles, and the selector \<open>sw\<close>, an array of numbers that \<^verbatim>\<open>build\<close> creates. Its
  weights are tables with one row per style.\<close>

record ConditionalInstanceNormalizationLayerArgs = InstanceNormalizationLayerArgs +
  arg_styleNum :: "int option"

record ConditionalInstanceNormalization = InstanceNormalization +
  style_num :: "int option"
  sw :: "real list option"

definition ConditionalInstanceNormalization_constructor ::
  "ConditionalInstanceNormalizationLayerArgs \<Rightarrow> ConditionalInstanceNormalization" where
  "ConditionalInstanceNormalization_constructor args =
     \<lparr>axis = (case arg_axis args of None \<Rightarrow> - 1 | Some a \<Rightarrow> a),
      epsilon = (case arg_epsilon args of None \<Rightarrow> 1 / 1000 | Some e \<Rightarrow> e),
      center = arg_center args,
      scale = arg_scale args,
      gamma = None,
      beta = None,
      style_num = arg_styleNum args,
      sw = None\<rparr>"

text \<open>\<^verbatim>\<open>build\<close> pushes \<open>style_num\<close> zeros (none when \<open>style_num\<close> is absent or not
  positive) and then stores 1 at position 0, which extends an empty array. The tables get
  the shape \<open>[style_num, dim]\<close>, and \<^verbatim>\<open>build\<close> does not look at \<open>style_num\<close>
  before it passes it on.\<close>

definition selector_init :: "int option \<Rightarrow> real list" where
  "selector_init n =
     (let zs = (case n of None \<Rightarrow> [] | Some k \<Rightarrow> replicate (nat k) 0)
      in case zs of [] \<Rightarrow> [1] | z # rest \<Rightarrow> 1 # rest)"

text \<open>Modelled from the spec: \<^verbatim>\<open>addWeight\<close> of the layers library, which has the
  initializer allocate a tensor of the given shape, here a shape whose entries may be
  absent or negative. The engine allocates as many values as the product of the entries.
  A negative product is refused by the typed array (\<open>RangeError\<close>). With an absent entry
  the product is NaN and the array is empty: the weight is created, holds no values, and
  its shape has an undefined entry. A shape of natural numbers cannot say that; the model
  gives the entry the extent 0 (and so for a negative entry beside an extent 0), which has
  the same values, none, and which \<open>dot\<close> rejects for every selector that
  \<^verbatim>\<open>build\<close> creates, as the engine rejects the undefined entry.\<close>

definition weight_extent :: "int option \<Rightarrow> nat" where
  "weight_extent k = (case k of None \<Rightarrow> 0 | Some n \<Rightarrow> nat n)"

definition addWeight :: "int option list \<Rightarrow> (nat list \<Rightarrow> tensor) \<Rightarrow> error + tensor" where
  "addWeight sh initializer =
     (if list_all (\<lambda>k. k \<noteq> None) sh \<and> prod_list (map the sh) < 0 then Inl RangeError
      else Inr (initializer (map weight_extent sh)))"

definition ConditionalInstanceNormalization_build ::
  "ConditionalInstanceNormalization \<Rightarrow> nat option list \<Rightarrow> error + ConditionalInstanceNormalization" where
  "ConditionalInstanceNormalization_build layer inputShape =
     (let ax = (if axis layer \<ge> 0 then axis layer else axis layer + int (length inputShape));
          dim = (if 0 \<le> ax \<and> nat ax < length inputShape then inputShape ! nat ax else None)
      in case dim of
           None \<Rightarrow> Inl ValueError
         | Some d \<Rightarrow>
             (let selector = selector_init (style_num layer);
                  new_shape = [style_num layer, Some (int d)]
              in ebind (addWeight new_shape ones) (\<lambda>g.
                 ebind (addWeight new_shape zeros) (\<lambda>b.
                 Inr (layer\<lparr>gamma := Some g, beta := Some b, sw := Some selector\<rparr>)))))"

definition ConditionalInstanceNormalization_call ::
  "ConditionalInstanceNormalization \<Rightarrow> tensor \<Rightarrow> error + quotient" where
  "ConditionalInstanceNormalization_call layer input =
     (let inputShape = shape input;
          ndim = length inputShape;
          reductionAxes = range_js 0 ndim;
          ax = (if axis layer \<ge> 0 then axis layer else axis layer + int ndim);
          reductionAxes = splice1 reductionAxes ax;
          broadcastShape = assign_dim (pyListRepeat 1 ndim) ax inputShape;
          meanAndVar = moments input reductionAxes;
          mean = fst meanAndVar;
          variance = snd meanAndVar
      in ebind (tadd (tsqrt variance) (scalar (epsilon layer))) (\<lambda>stddev.
         ebind (tsub input mean) (\<lambda>centred.
         ebind (tdiv centred stddev) (\<lambda>normed.
         case sw layer of
           Some selector \<Rightarrow>
             ebind (read_weight (beta layer)) (\<lambda>b.
             ebind (dot selector b) (\<lambda>betaW.
             ebind (read_weight (gamma layer)) (\<lambda>g.
             ebind (dot selector g) (\<lambda>gammaW.
             ebind (reshape_to betaW broadcastShape) (\<lambda>broadcastBeta.
             ebind (reshape_to gammaW broadcastShape) (\<lambda>broadcastGamma.
             ebind (qmul normed broadcastGamma) (\<lambda>normed.
             qadd normed broadcastBeta)))))))
         | None \<Rightarrow>
             ebind (if truthy (center layer)
                    then ebind (read_weight (beta layer))
                           (\<lambda>b. map_sum id Some (reshape_to b broadcastShape))
                    else Inr None) (\<lambda>broadcastBeta.
             ebind (if truthy (scale layer)
                    then ebind (read_weight (gamma layer))
                           (\<lambda>g. map_sum id Some (reshape_to g broadcastShape))
                    else Inr None) (\<lambda>broadcastGamma.
             ebind (if truthy (scale layer)
                    then ebind (read_weight broadcastGamma) (qmul normed)
                    else Inr normed) (\<lambda>normed.
             if truthy (center layer)
             then ebind (read_weight broadcastBeta) (qadd normed)
             else Inr normed)))))))"

text \<open>The statistics of channel \<open>c\<close> of a tensor whose channel axis is the last one: the
  elements at all positions with last index \<open>c\<close>, whatever their batch index, their mean
  and their mean squared deviation.\<close>

definition channel_elems :: "tensor \<Rightarrow> nat \<Rightarrow> real list" where
  "channel_elems x c = map (tget x) (filter (\<lambda>i. last i = c) (all_indices (shape x)))"

definition mean_list :: "real list \<Rightarrow> real" where
  "mean_list vs = sum_list vs / real (length vs)"

definition var_list :: "real list \<Rightarrow> real" where
  "var_list vs = sum_list (map (\<lambda>v. (v - mean_list vs)\<^sup>2) vs) / real (length vs)"

definition channel_mean :: "tensor \<Rightarrow> nat \<Rightarrow> real" where
  "channel_mean x c = mean_list (channel_elems x c)"

definition channel_var :: "tensor \<Rightarrow> nat \<Rightarrow> real" where
  "channel_var x c = var_list (channel_elems x c)"

text \<open>The statistics of the specification: per sample and per channel, that is over the
  positions that share both the first (batch) index and the last (channel) index.\<close>

definition sample_channel_elems :: "tensor \<Rightarrow> nat \<Rightarrow> nat \<Rightarrow> real list" where
  "sample_channel_elems x b c =
     map (tget x) (filter (\<lambda>i. hd i = b \<and> last i = c) (all_indices (shape x)))"

definition instance_norm_spec :: "real \<Rightarrow> tensor \<Rightarrow> tensor" where
  "instance_norm_spec eps x =
     tensor_of (shape x)
       (\<lambda>i. (tget x i - mean_list (sample_channel_elems x (hd i) (last i)))
             / (sqrt (var_list (sample_channel_elems x (hd i) (last i))) + eps))"

text \<open>The selector that picks style \<open>i\<close> out of \<open>n\<close>, the weighted combination of the
  rows of a table that the specification calls the effective parameters, and a single
  row of a table.\<close>

definition one_hot :: "nat \<Rightarrow> nat \<Rightarrow> real list" where
  "one_hot n i = map (\<lambda>s. if s = i then 1 else 0) [0..<n]"

definition weighted_rows :: "real list \<Rightarrow> tensor \<Rightarrow> tensor" where
  "weighted_rows v m =
     tensor_of [shape m ! 1] (\<lambda>j. sum_list (map (\<lambda>s. v ! s * tget m [s, j ! 0]) [0..<length v]))"

definition table_row :: "tensor \<Rightarrow> nat \<Rightarrow> tensor" where
  "table_row m i = tensor_of [shape m ! 1] (\<lambda>j. tget m [i, j ! 0])"


text \<open>The value that the forward pass assigns to position \<open>i\<close> when the channel axis is
  the last axis: the standardized element, with the standard deviation and \<open>epsilon\<close>
  added after the square root, then scaled and shifted by the weights of its channel as
  the options say.\<close>

definition normalized_value :: "real \<Rightarrow> tensor \<Rightarrow> nat list \<Rightarrow> real" where
  "normalized_value eps x i =
     (tget x i - channel_mean x (last i)) / (sqrt (channel_var x (last i)) + eps)"

definition affine_value :: "bool \<Rightarrow> bool \<Rightarrow> tensor option \<Rightarrow> tensor option \<Rightarrow> nat \<Rightarrow> real \<Rightarrow> real" where
  "affine_value scaled centred g b c v =
     (let v = (if scaled then v * tget (the g) [c] else v)
      in if centred then v + tget (the b) [c] else v)"

definition expected_value :: "InstanceNormalization \<Rightarrow> tensor \<Rightarrow> nat list \<Rightarrow> real" where
  "expected_value layer x i =
     affine_value (truthy (scale layer)) (truthy (center layer)) (gamma layer) (beta layer)
       (last i) (normalized_value (epsilon layer) x i)"

text \<open>The element that the forward pass returns at position \<open>i\<close>: not finite when the
  divisor of its channel is zero, and the value above otherwise.\<close>

definition expected_output :: "InstanceNormalization \<Rightarrow> tensor \<Rightarrow> nat list \<Rightarrow> real option" where
  "expected_output layer x i =
     (if sqrt (channel_var x (last i)) + epsilon layer = 0 then None
      else Some (expected_value layer x i))"

definition resolved_axis :: "int \<Rightarrow> nat \<Rightarrow> int" where
  "resolved_axis a ndim = (if a \<ge> 0 then a else a + int ndim)"

text \<open>The conditions under which the theorems describe a forward pass: the channel
  axis of the layer is the last axis of the input, and each weight that the options
  switch on exists and has one entry per channel.\<close>

definition channels_last :: "int \<Rightarrow> tensor \<Rightarrow> bool" where
  "channels_last a x =
     (shape x \<noteq> [] \<and> resolved_axis a (length (shape x)) = int (length (shape x)) - 1)"

definition weight_fits :: "bool option \<Rightarrow> tensor option \<Rightarrow> tensor \<Rightarrow> bool" where
  "weight_fits option w x =
     (if truthy option then (case w of None \<Rightarrow> False | Some t \<Rightarrow> shape t = [last (shape x)])
      else True)"

text \<open>The extent that \<^verbatim>\<open>build\<close> reads off the input shape for the channel axis
  \<open>a\<close>: absent when the shape has \<^verbatim>\<open>null\<close> there or no such position.\<close>

definition build_dim :: "int \<Rightarrow> nat option list \<Rightarrow> nat option" where
  "build_dim a inputShape =
     (let ax = (if a \<ge> 0 then a else a + int (length inputShape))
      in if 0 \<le> ax \<and> nat ax < length inputShape then inputShape ! nat ax else None)"

text \<open>The plain layer that a conditional layer with selector \<open>v\<close> and tables \<open>gT\<close>,
  \<open>bT\<close> amounts to: scaling and shifting are on, and the weights are the combinations of
  the rows of the tables.\<close>

definition effective_layer ::
  "int \<Rightarrow> real \<Rightarrow> tensor \<Rightarrow> tensor \<Rightarrow> InstanceNormalization" where
  "effective_layer a eps g b =
     \<lparr>axis = a, epsilon = eps, center = Some True, scale = Some True,
      gamma = Some g, beta = Some b\<rparr>"

section \<open>Deprocessing (\<^verbatim>\<open>deprocess.ts\<close> and a second version of the same class)\<close>

text \<open>The repository holds two versions of the class \<^verbatim>\<open>DeprocessStylizedImage\<close>. The one
  in \<^verbatim>\<open>deprocess.ts\<close> defaults its activation to \<^verbatim>\<open>sigmoid\<close> and returns its
  input; the other stores the activation as given (possibly absent) and rescales.\<close>

record DeprocessStylizedImageLayerArgs =
  arg_activation :: "string option"

record DeprocessStylizedImage =
  activation :: "string option"

definition DeprocessStylizedImage_constructor ::
  "DeprocessStylizedImageLayerArgs \<Rightarrow> DeprocessStylizedImage" where
  "DeprocessStylizedImage_constructor args =
     \<lparr>activation = (case arg_activation args of None \<Rightarrow> Some ''sigmoid'' | Some a \<Rightarrow> Some a)\<rparr>"

definition DeprocessStylizedImage_call :: "DeprocessStylizedImage \<Rightarrow> tensor \<Rightarrow> error + tensor" where
  "DeprocessStylizedImage_call layer inputs = Inr inputs"

definition DeprocessStylizedImage_constructor_rescaling ::
  "DeprocessStylizedImageLayerArgs \<Rightarrow> DeprocessStylizedImage" where
  "DeprocessStylizedImage_constructor_rescaling args = \<lparr>activation = arg_activation args\<rparr>"

definition DeprocessStylizedImage_call_rescaling ::
  "DeprocessStylizedImage \<Rightarrow> tensor \<Rightarrow> error + tensor" where
  "DeprocessStylizedImage_call_rescaling layer x =
     (if activation layer = Some ''tanh''
      then ebind (tadd x (scalar 1)) (\<lambda>y. tmul y (scalar (255 / 2)))
      else tmul x (scalar 255))"

section \<open>Concrete inputs\<close>

text \<open>Small tensors and layers at which the theorems below are instantiated. The images
  have one sample and one channel: \<open>image_2x3\<close> has the rows \<open>1 2 3\<close> and \<open>4 5 6\<close>,
  \<open>image_2x2\<close> the rows \<open>1 2\<close> and \<open>3 4\<close>.\<close>

definition image_2x3 :: tensor where
  "image_2x3 = \<lparr>shape = [1, 2, 3, 1], vals = [1, 2, 3, 4, 5, 6]\<rparr>"

definition image_2x2 :: tensor where
  "image_2x2 = \<lparr>shape = [1, 2, 2, 1], vals = [1, 2, 3, 4]\<rparr>"

definition pad_top_only :: ReflectionPadding2DLayerArgs where
  "pad_top_only = \<lparr>arg_padding = Some (PadArrays [[1, 0], [0, 0]]), arg_dim_ordering = None\<rparr>"

definition pad_left_right :: ReflectionPadding2DLayerArgs where
  "pad_left_right = \<lparr>arg_padding = Some (PadArrays [[0, 0], [1, 1]]), arg_dim_ordering = None\<rparr>"



text \<open>Inputs of the normalization layers: a batch of two samples of one pixel each and
  one sample of two pixels, both with one channel, and one sample of two pixels with two
  channels, of which the first holds 0 and 2 and the second is constant.\<close>

definition batch_of_two :: tensor where
  "batch_of_two = \<lparr>shape = [2, 1, 1, 1], vals = [0, 2]\<rparr>"

definition row_0_2 :: tensor where
  "row_0_2 = \<lparr>shape = [1, 1, 2, 1], vals = [0, 2]\<rparr>"

definition two_channels :: tensor where
  "two_channels = \<lparr>shape = [1, 1, 2, 2], vals = [0, 5, 2, 5]\<rparr>"

definition default_args :: InstanceNormalizationLayerArgs where
  "default_args = \<lparr>arg_axis = None, arg_epsilon = None, arg_center = None, arg_scale = None\<rparr>"

definition affine_args :: InstanceNormalizationLayerArgs where
  "affine_args = \<lparr>arg_axis = None, arg_epsilon = Some 0, arg_center = Some True,
                  arg_scale = Some True\<rparr>"

definition plain_args :: InstanceNormalizationLayerArgs where
  "plain_args = \<lparr>arg_axis = None, arg_epsilon = Some 0, arg_center = Some False,
                 arg_scale = Some False\<rparr>"

text \<open>A conditional layer with one style, both options switched off, and tables that
  scale by 2 and shift by 3.\<close>

definition scale_by_2 :: tensor where
  "scale_by_2 = \<lparr>shape = [1, 1], vals = [2]\<rparr>"

definition shift_by_3 :: tensor where
  "shift_by_3 = \<lparr>shape = [1, 1], vals = [3]\<rparr>"

definition toggles_off :: ConditionalInstanceNormalization where
  "toggles_off =
     \<lparr>axis = - 1, epsilon = 0, center = Some False, scale = Some False,
      gamma = Some scale_by_2, beta = Some shift_by_3,
      style_num = Some 1, sw = Some [1]\<rparr>"

text \<open>A conditional layer with two styles and one channel, its selector on style 1.\<close>

definition gammas_2_4 :: tensor where
  "gammas_2_4 = \<lparr>shape = [2, 1], vals = [2, 4]\<rparr>"

definition betas_3_7 :: tensor where
  "betas_3_7 = \<lparr>shape = [2, 1], vals = [3, 7]\<rparr>"

definition two_styles :: ConditionalInstanceNormalization where
  "two_styles =
     \<lparr>axis = - 1, epsilon = 1 / 1000, center = None, scale = None,
      gamma = Some gammas_2_4, beta = Some betas_3_7,
      style_num = Some 2, sw = Some (one_hot 2 1)\<rparr>"

definition tanh_layer :: DeprocessStylizedImage where
  "tanh_layer = \<lparr>activation = Some ''tanh''\<rparr>"

definition sigmoid_args :: DeprocessStylizedImageLayerArgs where
  "sigmoid_args = \<lparr>arg_activation = Some ''sigmoid''\<rparr>"

definition relu_args :: DeprocessStylizedImageLayerArgs where
  "relu_args = \<lparr>arg_activation = Some ''relu''\<rparr>"

definition tanh_args :: DeprocessStylizedImageLayerArgs where
  "tanh_args = \<lparr>arg_activation = Some ''tanh''\<rparr>"

definition activations :: tensor where
  "activations = \<lparr>shape = [3], vals = [- 1, 0, 1]\<rparr>"

definition no_args :: ConditionalInstanceNormalizationLayerArgs where
  "no_args = \<lparr>arg_axis = None, arg_epsilon = None, arg_center = None, arg_scale = None,
               arg_styleNum = None\<rparr>"

definition two_style_args :: ConditionalInstanceNormalizationLayerArgs where
  "two_style_args = \<lparr>arg_axis = None, arg_epsilon = None, arg_center = None, arg_scale = None,
                      arg_styleNum = Some 2\<rparr>"

text \<open>A plain layer that scales by 2 and does not shift.\<close>

definition scale_only :: InstanceNormalization where
  "scale_only =
     \<lparr>axis = - 1, epsilon = 0, center = Some False, scale = Some True,
      gamma = Some \<lparr>shape = [1], vals = [2]\<rparr>, beta = None\<rparr>"

text \<open>An input with the channels on axis 1 (one sample, two channels, one row, three
  columns) and a layer configured for it.\<close>

definition channels_first_input :: tensor where
  "channels_first_input = \<lparr>shape = [1, 2, 1, 3], vals = [1, 2, 3, 4, 5, 6]\<rparr>"

definition channels_first_layer :: InstanceNormalization where
  "channels_first_layer =
     \<lparr>axis = 1, epsilon = 1 / 1000, center = None, scale = None, gamma = None, beta = None\<rparr>"

section \<open>Facts about the tensor engine\<close>

lemma ebind_Inr [simp]: "ebind (Inr v) f = f v"
  by (simp add: ebind_def)

lemma ebind_Inl [simp]: "ebind (Inl e) f = Inl e"
  by (simp add: ebind_def)

lemma ebind_assoc: "ebind (ebind m f) k = ebind m (\<lambda>u. ebind (f u) k)"
  by (cases m) simp_all

lemma valid_index_Nil [simp]: "valid_index [] i = (i = [])"
  by (simp add: valid_index_def)

lemma valid_index_Cons [simp]:
  "valid_index (d # ds) i = (\<exists>k ks. i = k # ks \<and> k < d \<and> valid_index ds ks)"
  by (cases i) (auto simp add: valid_index_def)

lemma valid_index_length: "valid_index sh i \<Longrightarrow> length i = length sh"
  by (simp add: valid_index_def list_all2_lengthD)

lemma valid_index_nth: "valid_index sh i \<Longrightarrow> k < length sh \<Longrightarrow> i ! k < sh ! k"
  by (simp add: valid_index_def list_all2_nthD2)

lemma valid_index_iff:
  "valid_index sh i = (length i = length sh \<and> (\<forall>k < length sh. i ! k < sh ! k))"
  by (auto simp add: valid_index_def list_all2_conv_all_nth)

lemma ravel_less: "valid_index sh i \<Longrightarrow> ravel sh i < prod_list sh"
proof (induction sh arbitrary: i)
  case Nil
  then show ?case by simp
next
  case (Cons d ds)
  then obtain k ks where i: "i = k # ks" and k: "k < d" and ks: "valid_index ds ks"
    by auto
  have r: "ravel ds ks < prod_list ds" using Cons.IH ks by blast
  have "k * prod_list ds + ravel ds ks < k * prod_list ds + prod_list ds"
    using r by simp
  also have "\<dots> = (Suc k) * prod_list ds" by simp
  also have "\<dots> \<le> d * prod_list ds" using k by (simp add: Suc_leI mult_le_mono1 del: mult_Suc)
  finally show ?case using i by simp
qed

lemma unravel_ravel: "valid_index sh i \<Longrightarrow> unravel sh (ravel sh i) = i"
proof (induction sh arbitrary: i)
  case Nil
  then show ?case by simp
next
  case (Cons d ds)
  then obtain k ks where i: "i = k # ks" and k: "k < d" and ks: "valid_index ds ks"
    by auto
  have r: "ravel ds ks < prod_list ds" using ravel_less ks by blast
  have "unravel ds (ravel ds ks) = ks" using Cons.IH ks by blast
  then show ?case using i r by simp
qed

lemma valid_unravel: "k < prod_list sh \<Longrightarrow> valid_index sh (unravel sh k)"
proof (induction sh arbitrary: k)
  case Nil
  then show ?case by simp
next
  case (Cons d ds)
  have pos: "0 < prod_list ds" using Cons.prems by (cases "prod_list ds") auto
  have "k div prod_list ds < d"
    using Cons.prems pos by (simp add: less_mult_imp_div_less mult.commute)
  moreover have "valid_index ds (unravel ds (k mod prod_list ds))"
    using Cons.IH pos by simp
  ultimately show ?case by simp
qed

lemma ravel_unravel: "k < prod_list sh \<Longrightarrow> ravel sh (unravel sh k) = k"
proof (induction sh arbitrary: k)
  case Nil
  then show ?case by simp
next
  case (Cons d ds)
  have pos: "0 < prod_list ds" using Cons.prems by (cases "prod_list ds") auto
  then show ?case using Cons.IH [of "k mod prod_list ds"] by simp
qed

lemma shape_tensor_of [simp]: "shape (tensor_of sh f) = sh"
  by (simp add: tensor_of_def)

lemma wf_tensor_of [simp]: "wf_tensor (tensor_of sh f)"
  by (simp add: tensor_of_def wf_tensor_def)

lemma tget_tensor_of: "valid_index sh i \<Longrightarrow> tget (tensor_of sh f) i = f i"
  using ravel_less [of sh i] unravel_ravel [of sh i]
  by (simp add: tget_def tensor_of_def)

lemma tensor_eqI:
  assumes "wf_tensor a" "wf_tensor b" "shape a = shape b"
    and "\<And>i. valid_index (shape a) i \<Longrightarrow> tget a i = tget b i"
  shows "a = b"
proof -
  have len: "length (vals a) = length (vals b)"
    using assms(1-3) by (simp add: wf_tensor_def)
  have "vals a ! k = vals b ! k" if "k < length (vals a)" for k
  proof -
    have k: "k < prod_list (shape a)" using that assms(1) by (simp add: wf_tensor_def)
    have "tget a (unravel (shape a) k) = tget b (unravel (shape a) k)"
      using assms(4) valid_unravel k by blast
    then show ?thesis using k assms(3) by (simp add: tget_def ravel_unravel)
  qed
  then have "vals a = vals b" using len by (simp add: list_eq_iff_nth_eq)
  then show ?thesis using assms(3) by simp
qed

lemma tensor_of_cong:
  "(\<And>i. valid_index sh i \<Longrightarrow> f i = g i) \<Longrightarrow> tensor_of sh f = tensor_of sh g"
  by (rule tensor_eqI) (simp_all add: tget_tensor_of)

lemma tensor_of_tget: "wf_tensor x \<Longrightarrow> tensor_of (shape x) (tget x) = x"
  by (rule tensor_eqI) (simp_all add: tget_tensor_of)

section \<open>Facts about reductions and broadcasting\<close>

lemma set_all_indices: "set (all_indices sh) = {i. valid_index sh i}"
proof (induction sh)
  case Nil
  then show ?case by auto
next
  case (Cons d ds)
  show ?case
  proof (rule set_eqI)
    fix i
    show "i \<in> set (all_indices (d # ds)) \<longleftrightarrow> i \<in> {i. valid_index (d # ds) i}"
      using Cons.IH by (cases i) auto
  qed
qed

lemma all_indices_valid: "i \<in> set (all_indices sh) \<Longrightarrow> valid_index sh i"
  by (simp add: set_all_indices)

lemma valid_index_last: "valid_index sh i \<Longrightarrow> sh \<noteq> [] \<Longrightarrow> last i < last sh"
proof (induction sh arbitrary: i)
  case Nil
  then show ?case by simp
next
  case (Cons d ds)
  then obtain k ks where i: "i = k # ks" "k < d" "valid_index ds ks" by auto
  show ?case
  proof (cases ds)
    case Nil
    then show ?thesis using i by simp
  next
    case (Cons e es)
    then have "ks \<noteq> []" using i(3) by auto
    then show ?thesis using Cons.IH [of ks] i Cons \<open>ds = e # es\<close> by simp
  qed
qed

lemma sum_list_concat_map_const:
  "length (concat (map (\<lambda>k. f k) [0..<d])) = (\<Sum>k\<leftarrow>[0..<d]. length (f k))"
  by (simp add: length_concat comp_def)

lemma count_last:
  assumes "sh \<noteq> []" and "c < last sh"
  shows "length (filter (\<lambda>i. last i = c) (all_indices sh)) = prod_list (butlast sh)"
  using assms
proof (induction sh)
  case Nil
  then show ?case by simp
next
  case (Cons d ds)
  show ?case
  proof (cases ds)
    case Nil
    have "filter (\<lambda>i. last i = c) (map (\<lambda>k. [k]) [0..<d]) = map (\<lambda>k. [k]) (filter (\<lambda>k. k = c) [0..<d])"
      by (simp add: filter_map comp_def)
    moreover have "filter (\<lambda>k. k = c) [0..<d] = [c]"
      using Cons.prems Nil by (induction d) auto
    ultimately show ?thesis using Nil by (simp add: comp_def)
  next
    case (Cons e es)
    have ne: "\<And>ks. ks \<in> set (all_indices ds) \<Longrightarrow> ks \<noteq> []"
      using Cons all_indices_valid by fastforce
    have step: "filter (\<lambda>i. last i = c) (map ((#) k) (all_indices ds))
                 = map ((#) k) (filter (\<lambda>i. last i = c) (all_indices ds))" for k
      using ne by (simp add: filter_map comp_def cong: filter_cong)
    have IH: "length (filter (\<lambda>i. last i = c) (all_indices ds)) = prod_list (butlast ds)"
      using Cons.IH Cons.prems Cons by simp
    have "length (filter (\<lambda>i. last i = c) (all_indices (d # ds)))
            = (\<Sum>k\<leftarrow>[0..<d]. length (filter (\<lambda>i. last i = c) (map ((#) k) (all_indices ds))))"
      by (simp add: filter_concat length_concat comp_def)
    also have "\<dots> = (\<Sum>k\<leftarrow>[0..<d]. prod_list (butlast ds))"
      by (simp add: step IH)
    also have "\<dots> = d * prod_list (butlast ds)"
      by (simp add: sum_list_triv)
    finally show ?thesis using Cons by simp
  qed
qed


lemma filter_upt_last:
  "filter (\<lambda>k. \<not> k < m) [0..<Suc m] = [m]"
proof -
  have "filter (\<lambda>k. \<not> k < m) [0..<m] = []"
    by (simp add: filter_empty_conv)
  then show ?thesis by simp
qed

lemma keep_axes_last:
  assumes "xs \<noteq> []"
  shows "keep_axes [0..<length xs - 1] xs = [last xs]"
proof -
  obtain m where m: "length xs = Suc m" using assms by (cases xs) auto
  then show ?thesis
    using assms filter_upt_last [of m] by (simp add: keep_axes_def last_conv_nth)
qed

lemma splice1_last: "0 < n \<Longrightarrow> splice1 [0..<n] (int n - 1) = [0..<n - 1]"
proof -
  assume "0 < n"
  then obtain m where m: "n = Suc m" by (cases n) auto
  have "nat (min (int m) (1 + int m)) = m" by simp
  then show ?thesis using m by (simp add: splice1_def Let_def)
qed

lemma replicate_update_last: "(replicate (Suc m) a)[m := v] = replicate m a @ [v]"
  by (induction m) simp_all

lemma assign_dim_last:
  assumes "sh \<noteq> []"
  shows "assign_dim (pyListRepeat 1 (length sh)) (int (length sh) - 1) sh
     = Some (replicate (length sh - 1) 1 @ [last sh])"
proof -
  obtain m where m: "length sh = Suc m" using assms by (cases sh) auto
  have "nat (int (length sh) - 1) = m" using m by simp
  then show ?thesis
    using m assms replicate_update_last [of m 1 "sh ! m"]
    by (simp add: assign_dim_def pyListRepeat_def last_conv_nth)
qed


lemma map_nth_butlast: "map ((!) sh) [0..<length sh - Suc 0] = butlast sh"
  by (rule nth_equalityI) (simp_all add: nth_butlast)

lemma group_last:
  assumes "sh \<noteq> []"
  shows "filter (\<lambda>i. keep_axes [0..<length sh - 1] i = [c]) (all_indices sh)
           = filter (\<lambda>i. last i = c) (all_indices sh)"
proof (rule filter_cong [OF refl])
  fix i assume "i \<in> set (all_indices sh)"
  then have len: "length i = length sh" using all_indices_valid valid_index_length by blast
  then have "i \<noteq> []" using assms by auto
  then show "(keep_axes [0..<length sh - 1] i = [c]) = (last i = c)"
    using keep_axes_last [of i] len by simp
qed

lemma moments_last_shape:
  assumes ne: "shape x \<noteq> []"
  shows "shape (fst (moments x [0..<length (shape x) - 1])) = [last (shape x)]"
    and "shape (snd (moments x [0..<length (shape x) - 1])) = [last (shape x)]"
    and "wf_tensor (snd (moments x [0..<length (shape x) - 1]))"
proof -
  have ks: "keep_axes [0..<length (shape x) - 1] (shape x) = [last (shape x)]"
    using keep_axes_last [OF ne] by simp
  show "shape (fst (moments x [0..<length (shape x) - 1])) = [last (shape x)]"
    by (simp only: moments_def Let_def fst_conv ks shape_tensor_of)
  show "shape (snd (moments x [0..<length (shape x) - 1])) = [last (shape x)]"
    by (simp only: moments_def Let_def snd_conv ks shape_tensor_of)
  show "wf_tensor (snd (moments x [0..<length (shape x) - 1]))"
    by (simp only: moments_def Let_def snd_conv wf_tensor_of)
qed

lemma moments_last:
  assumes ne: "shape x \<noteq> []" and c: "c < last (shape x)"
  shows "tget (fst (moments x [0..<length (shape x) - 1])) [c] = channel_mean x c"
    and "tget (snd (moments x [0..<length (shape x) - 1])) [c] = channel_var x c"
proof -
  let ?axes = "[0..<length (shape x) - 1]"
  let ?n = "real (prod_list (map (\<lambda>k. shape x ! k) ?axes))"
  let ?group = "\<lambda>j. filter (\<lambda>i. keep_axes ?axes i = j) (all_indices (shape x))"
  define mean where "mean = tensor_of (keep_axes ?axes (shape x))
                       (\<lambda>j. sum_list (map (tget x) (?group j)) / ?n)"
  define var where "var = tensor_of (keep_axes ?axes (shape x))
                       (\<lambda>j. sum_list (map (\<lambda>i. (tget x i - tget mean j)\<^sup>2) (?group j)) / ?n)"
  have mv: "moments x ?axes = (mean, var)"
    by (simp add: moments_def Let_def mean_def var_def)
  have ks: "keep_axes ?axes (shape x) = [last (shape x)]"
    using keep_axes_last [OF ne] by simp
  have n: "?n = real (length (channel_elems x c))"
    using count_last [OF ne c] by (simp add: channel_elems_def map_nth_butlast)
  have g: "?group [c] = filter (\<lambda>i. last i = c) (all_indices (shape x))"
    using group_last [OF ne] by simp
  have v: "valid_index [last (shape x)] [c]" using c by simp
  have m: "tget mean [c] = channel_mean x c"
    unfolding mean_def ks using g n
    by (simp add: tget_tensor_of [OF v] channel_mean_def mean_list_def channel_elems_def)
  have "tget var [c] = sum_list (map (\<lambda>i. (tget x i - channel_mean x c)\<^sup>2) (?group [c])) / ?n"
    unfolding var_def ks by (simp add: tget_tensor_of [OF v] m)
  also have "\<dots> = channel_var x c"
    using g n
    by (simp add: channel_var_def var_list_def channel_mean_def channel_elems_def comp_def)
  finally have vv: "tget var [c] = channel_var x c" .
  show "tget (fst (moments x ?axes)) [c] = channel_mean x c" by (simp only: mv fst_conv m)
  show "tget (snd (moments x ?axes)) [c] = channel_var x c" by (simp only: mv snd_conv vv)
qed


lemma broadcast_rev_Nil2: "broadcast_rev as [] = Some as"
  by (cases as) simp_all

lemma broadcast_rev_ones: "broadcast_rev as (replicate (length as) (Suc 0)) = Some as"
  by (induction as) simp_all

lemma broadcast_rev_head: "broadcast_rev as bs = Some as \<Longrightarrow> broadcast_rev (a # as) (a # bs) = Some (a # as)"
  by simp

lemma rev_last_butlast: "sh \<noteq> [] \<Longrightarrow> rev sh = last sh # rev (butlast sh)"
  by (induction sh) auto

lemma broadcast_shapes_scalar: "broadcast_shapes sh [] = Some sh"
  by (simp add: broadcast_shapes_def broadcast_rev_Nil2)

lemma broadcast_shapes_last:
  assumes "sh \<noteq> []"
  shows "broadcast_shapes sh [last sh] = Some sh"
proof -
  have r: "rev sh = last sh # rev (butlast sh)" using assms by (rule rev_last_butlast)
  have h: "broadcast_rev (last sh # rev (butlast sh)) (last sh # []) = Some (last sh # rev (butlast sh))"
    by (rule broadcast_rev_head) (rule broadcast_rev_Nil2)
  have "broadcast_rev (rev sh) [last sh] = Some (rev sh)"
    unfolding r by (rule h)
  then show ?thesis by (simp add: broadcast_shapes_def)
qed

lemma broadcast_shapes_ones_last:
  assumes "sh \<noteq> []"
  shows "broadcast_shapes sh (replicate (length sh - Suc 0) (Suc 0) @ [last sh]) = Some sh"
proof -
  have r: "rev sh = last sh # rev (butlast sh)" using assms by (rule rev_last_butlast)
  have "broadcast_rev (rev (butlast sh)) (replicate (length (rev (butlast sh))) (Suc 0))
          = Some (rev (butlast sh))"
    by (rule broadcast_rev_ones)
  then have "broadcast_rev (rev (butlast sh)) (replicate (length sh - Suc 0) (Suc 0))
          = Some (rev (butlast sh))"
    by simp
  then have h: "broadcast_rev (last sh # rev (butlast sh)) (last sh # replicate (length sh - Suc 0) (Suc 0))
          = Some (last sh # rev (butlast sh))"
    by (rule broadcast_rev_head)
  have "broadcast_rev (rev sh) (last sh # replicate (length sh - Suc 0) (Suc 0)) = Some (rev sh)"
    unfolding r by (rule h)
  then show ?thesis by (simp add: broadcast_shapes_def)
qed

lemma bcast_index_self: "valid_index sh i \<Longrightarrow> bcast_index sh i = i"
proof -
  assume v: "valid_index sh i"
  then have len: "length i = length sh" by (rule valid_index_length)
  show ?thesis
  proof (rule nth_equalityI)
    show "length (bcast_index sh i) = length i" using len by (simp add: bcast_index_def)
  next
    fix k assume "k < length (bcast_index sh i)"
    then have k: "k < length sh" using len by (simp add: bcast_index_def)
    then have "i ! k < sh ! k" using v valid_index_nth by blast
    then show "bcast_index sh i ! k = i ! k" using k len by (auto simp add: bcast_index_def)
  qed
qed

lemma bcast_index_scalar: "bcast_index [] i = []"
  by (simp add: bcast_index_def)

lemma drop_last: "i \<noteq> [] \<Longrightarrow> drop (length i - Suc 0) i = [last i]"
  by (induction i) (auto simp add: Suc_diff_le drop_Cons')

lemma bcast_index_last:
  assumes "valid_index sh i" and "sh \<noteq> []"
  shows "bcast_index [last sh] i = [last i]"
proof -
  have "i \<noteq> []" using assms valid_index_length by fastforce
  moreover have "last i < last sh" using assms by (rule valid_index_last)
  ultimately show ?thesis by (auto simp add: bcast_index_def drop_last)
qed

lemma map2_ones: "length ks = m \<Longrightarrow>
    map2 (\<lambda>d k. if d = Suc 0 then 0 else k) (replicate m (Suc 0) @ [c]) (ks @ [k :: nat])
      = replicate m 0 @ [if c = Suc 0 then 0 else k]"
  by (induction ks arbitrary: m) auto

lemma bcast_index_ones_last:
  assumes "valid_index sh i" and "sh \<noteq> []"
  shows "bcast_index (replicate (length sh - Suc 0) (Suc 0) @ [last sh]) i
           = replicate (length sh - Suc 0) 0 @ [last i]"
proof -
  have len: "length i = length sh" using assms(1) by (rule valid_index_length)
  then have ne: "i \<noteq> []" using assms(2) by auto
  have l: "last i < last sh" using assms by (rule valid_index_last)
  have i: "butlast i @ [last i] = i" using ne by simp
  have "bcast_index (replicate (length sh - Suc 0) (Suc 0) @ [last sh]) (butlast i @ [last i])
          = map2 (\<lambda>d k. if d = Suc 0 then 0 else k) (replicate (length sh - Suc 0) (Suc 0) @ [last sh])
              (butlast i @ [last i])"
    using len assms(2) by (simp add: bcast_index_def)
  also have "\<dots> = replicate (length sh - Suc 0) 0 @ [if last sh = Suc 0 then 0 else last i]"
    by (rule map2_ones) (simp add: len)
  finally show ?thesis using l by (auto simp add: i)
qed

lemma ravel_ones_last: "ravel (replicate m (Suc 0) @ [c]) (replicate m 0 @ [k]) = k"
  by (induction m) simp_all

lemma tget_reshaped_weight:
  "shape w = replicate m (Suc 0) @ [c] \<Longrightarrow> tget w (replicate m 0 @ [k]) = vals w ! k"
  by (simp add: tget_def ravel_ones_last)

lemma tget_vector: "shape g = [c] \<Longrightarrow> tget g [k] = vals g ! k"
  by (simp add: tget_def)

lemma broadcast_op_scalar:
  "broadcast_op f x (scalar c) = Inr (tensor_of (shape x) (\<lambda>i. f (tget x i) c))"
proof -
  have "tensor_of (shape x) (\<lambda>i. f (tget x (bcast_index (shape x) i))
            (tget (scalar c) (bcast_index (shape (scalar c)) i)))
        = tensor_of (shape x) (\<lambda>i. f (tget x i) c)"
    by (rule tensor_of_cong) (simp add: bcast_index_self scalar_def bcast_index_scalar tget_def)
  then show ?thesis
    by (simp add: broadcast_op_def scalar_def broadcast_shapes_scalar)
qed

lemma broadcast_op_vector:
  assumes "shape x \<noteq> []" and "shape v = [last (shape x)]"
  shows "broadcast_op f x v = Inr (tensor_of (shape x) (\<lambda>i. f (tget x i) (tget v [last i])))"
proof -
  have "tensor_of (shape x) (\<lambda>i. f (tget x (bcast_index (shape x) i))
            (tget v (bcast_index (shape v) i)))
        = tensor_of (shape x) (\<lambda>i. f (tget x i) (tget v [last i]))"
    using assms by (intro tensor_of_cong) (simp add: bcast_index_self bcast_index_last)
  then show ?thesis
    using assms by (simp add: broadcast_op_def broadcast_shapes_last)
qed

lemma broadcast_op_reshaped:
  assumes "shape x \<noteq> []"
    and "shape w = replicate (length (shape x) - Suc 0) (Suc 0) @ [last (shape x)]"
  shows "broadcast_op f x w = Inr (tensor_of (shape x) (\<lambda>i. f (tget x i) (vals w ! last i)))"
proof -
  have "tensor_of (shape x) (\<lambda>i. f (tget x (bcast_index (shape x) i))
            (tget w (bcast_index (shape w) i)))
        = tensor_of (shape x) (\<lambda>i. f (tget x i) (vals w ! last i))"
    using assms
    by (intro tensor_of_cong)
      (simp add: bcast_index_self bcast_index_ones_last tget_reshaped_weight [OF assms(2)])
  then show ?thesis
    using assms by (simp add: broadcast_op_def broadcast_shapes_ones_last)
qed

section \<open>Facts about the normalization forward passes\<close>

lemma tget_tsqrt:
  assumes "wf_tensor v" and "valid_index (shape v) i"
  shows "tget (tsqrt v) i = sqrt (tget v i)"
proof -
  have "ravel (shape v) i < length (vals v)"
    using assms ravel_less by (simp add: wf_tensor_def)
  then show ?thesis by (simp add: tget_def tsqrt_def)
qed

lemma reshape_weight:
  assumes "shape g = [c]"
  shows "reshape_to g (Some (replicate m (Suc 0) @ [c]))
           = Inr \<lparr>shape = replicate m (Suc 0) @ [c], vals = vals g\<rparr>"
  using assms by (simp add: reshape_to_def reshape_def)

lemma standardize_last_axis:
  assumes ne: "shape x \<noteq> []"
  obtains stddev centred where
    "tadd (tsqrt (snd (moments x [0..<length (shape x) - 1]))) (scalar eps) = Inr stddev"
    and "tsub x (fst (moments x [0..<length (shape x) - 1])) = Inr centred"
    and "tdiv centred stddev
           = Inr (tensor_of (shape x)
                    (\<lambda>i. if sqrt (channel_var x (last i)) + eps = 0 then None
                         else Some (normalized_value eps x i)))"
proof -
  let ?s = "shape x"
  let ?n = "length ?s"
  let ?C = "last ?s"
  define mean where "mean = fst (moments x [0..<?n - 1])"
  define var where "var = snd (moments x [0..<?n - 1])"
  have msh: "shape mean = [?C]" "shape var = [?C]" "wf_tensor var"
    using moments_last_shape [OF ne] by (simp_all add: mean_def var_def)
  have mval: "tget mean [c] = channel_mean x c" "tget var [c] = channel_var x c" if "c < ?C" for c
    using moments_last [OF ne that] by (simp_all add: mean_def var_def)
  define stddev where "stddev = tensor_of [?C] (\<lambda>i. tget (tsqrt var) i + eps)"
  have sd: "tadd (tsqrt var) (scalar eps) = Inr stddev"
    by (simp add: tadd_def broadcast_op_scalar stddev_def tsqrt_def msh)
  have sdval: "tget stddev [c] = sqrt (channel_var x c) + eps" if "c < ?C" for c
    using that msh by (simp add: stddev_def tget_tensor_of tget_tsqrt mval)
  define centred where "centred = tensor_of ?s (\<lambda>i. tget x i - tget mean [last i])"
  have ce: "tsub x mean = Inr centred"
    using broadcast_op_vector [OF ne, of mean] msh by (simp add: tsub_def centred_def)
  have csh: "shape centred = ?s" and ssh: "shape stddev = [?C]"
    by (simp_all add: centred_def stddev_def)
  have "tdiv centred stddev
          = Inr (tensor_of (shape centred)
                   (\<lambda>i. if tget stddev [last i] = 0 then None
                        else Some (tget centred i / tget stddev [last i])))"
    unfolding tdiv_def by (rule broadcast_op_vector) (simp_all add: csh ssh ne)
  then have "tdiv centred stddev
          = Inr (tensor_of ?s (\<lambda>i. if tget stddev [last i] = 0 then None
                                   else Some (tget centred i / tget stddev [last i])))"
    by (simp only: csh)
  moreover have "tensor_of ?s (\<lambda>i. if tget stddev [last i] = 0 then None
                                   else Some (tget centred i / tget stddev [last i]))
                 = tensor_of ?s (\<lambda>i. if sqrt (channel_var x (last i)) + eps = 0 then None
                                      else Some (normalized_value eps x i))"
  proof (rule tensor_of_cong)
    fix i assume v: "valid_index ?s i"
    then have "last i < ?C" using ne by (rule valid_index_last)
    then show "(if tget stddev [last i] = 0 then None
                else Some (tget centred i / tget stddev [last i]))
               = (if sqrt (channel_var x (last i)) + eps = 0 then None
                  else Some (normalized_value eps x i))"
      using v by (simp add: centred_def tget_tensor_of sdval mval normalized_value_def)
  qed
  ultimately have no: "tdiv centred stddev
           = Inr (tensor_of ?s (\<lambda>i. if sqrt (channel_var x (last i)) + eps = 0 then None
                                    else Some (normalized_value eps x i)))"
    by simp
  show ?thesis
    using that [OF sd [unfolded var_def] ce [unfolded mean_def] no] .
qed

lemma InstanceNormalization_call_last_axis:
  assumes ne: "shape x \<noteq> []"
    and ax: "resolved_axis (axis layer) (length (shape x)) = int (length (shape x)) - 1"
    and g: "truthy (scale layer) \<Longrightarrow> \<exists>t. gamma layer = Some t \<and> shape t = [last (shape x)]"
    and b: "truthy (center layer) \<Longrightarrow> \<exists>t. beta layer = Some t \<and> shape t = [last (shape x)]"
  shows "InstanceNormalization_call layer x = Inr (tensor_of (shape x) (expected_output layer x))"
proof -
  let ?s = "shape x"
  let ?n = "length ?s"
  let ?C = "last ?s"
  let ?bs = "replicate (?n - Suc 0) (Suc 0) @ [?C]"
  let ?N = "\<lambda>i. if sqrt (channel_var x (last i)) + epsilon layer = 0 then None
                 else Some (normalized_value (epsilon layer) x i)"
  have n: "0 < ?n" using ne by simp
  have axes: "splice1 (range_js 0 ?n) (resolved_axis (axis layer) ?n) = [0..<?n - 1]"
    using splice1_last [OF n] by (simp add: ax range_js_def)
  have bshape: "assign_dim (pyListRepeat 1 ?n) (resolved_axis (axis layer) ?n) ?s = Some ?bs"
    using assign_dim_last [OF ne] by (simp add: ax)
  obtain stddev centred where
    sd: "tadd (tsqrt (snd (moments x [0..<?n - 1]))) (scalar (epsilon layer)) = Inr stddev"
    and ce: "tsub x (fst (moments x [0..<?n - 1])) = Inr centred"
    and no: "tdiv centred stddev = Inr (tensor_of ?s ?N)"
    using standardize_last_axis [OF ne, of "epsilon layer"] by blast
  define normed where "normed = tensor_of ?s ?N"
  have nval: "tget normed i = ?N i" if "valid_index ?s i" for i
    using that by (simp add: normed_def tget_tensor_of)
  define bBeta where "bBeta = (if truthy (center layer)
      then Some \<lparr>shape = ?bs, vals = vals (the (beta layer))\<rparr> else None)"
  define bGamma where "bGamma = (if truthy (scale layer)
      then Some \<lparr>shape = ?bs, vals = vals (the (gamma layer))\<rparr> else None)"
  have rb: "(if truthy (center layer)
             then ebind (read_weight (beta layer)) (\<lambda>t. map_sum id Some (reshape_to t (Some ?bs)))
             else Inr None) = Inr bBeta"
    using b by (auto simp add: bBeta_def read_weight_def reshape_weight)
  have rg: "(if truthy (scale layer)
             then ebind (read_weight (gamma layer)) (\<lambda>t. map_sum id Some (reshape_to t (Some ?bs)))
             else Inr None) = Inr bGamma"
    using g by (auto simp add: bGamma_def read_weight_def reshape_weight)
  define scaled where "scaled = tensor_of ?s
      (\<lambda>i. if truthy (scale layer)
           then map_option (\<lambda>v. v * tget (the (gamma layer)) [last i]) (tget normed i)
           else tget normed i)"
  have sc: "(if truthy (scale layer) then ebind (read_weight bGamma) (qmul normed) else Inr normed)
              = Inr scaled"
  proof (cases "truthy (scale layer)")
    case True
    then obtain t where t: "gamma layer = Some t" "shape t = [?C]" using g by blast
    have "qmul normed \<lparr>shape = ?bs, vals = vals t\<rparr>
            = Inr (tensor_of ?s (\<lambda>i. map_option (\<lambda>v. v * vals t ! last i) (tget normed i)))"
      using broadcast_op_reshaped [of normed "\<lparr>shape = ?bs, vals = vals t\<rparr>"] ne
      by (simp add: qmul_def normed_def)
    then show ?thesis
      using True t by (simp add: bGamma_def read_weight_def scaled_def tget_vector)
  next
    case False
    have "normed = tensor_of ?s (tget normed)"
      using tensor_of_tget [of normed] by (simp add: normed_def)
    then show ?thesis using False by (simp add: scaled_def)
  qed
  define shifted where "shifted = tensor_of ?s
      (\<lambda>i. if truthy (center layer)
           then map_option (\<lambda>v. v + tget (the (beta layer)) [last i]) (tget scaled i)
           else tget scaled i)"
  have sf: "(if truthy (center layer) then ebind (read_weight bBeta) (qadd scaled) else Inr scaled)
              = Inr shifted"
  proof (cases "truthy (center layer)")
    case True
    then obtain t where t: "beta layer = Some t" "shape t = [?C]" using b by blast
    have "qadd scaled \<lparr>shape = ?bs, vals = vals t\<rparr>
            = Inr (tensor_of ?s (\<lambda>i. map_option (\<lambda>v. v + vals t ! last i) (tget scaled i)))"
      using broadcast_op_reshaped [of scaled "\<lparr>shape = ?bs, vals = vals t\<rparr>"] ne
      by (simp add: qadd_def scaled_def)
    then show ?thesis
      using True t by (simp add: bBeta_def read_weight_def shifted_def tget_vector)
  next
    case False
    have "scaled = tensor_of ?s (tget scaled)"
      using tensor_of_tget [of scaled] by (simp add: scaled_def)
    then show ?thesis using False by (simp add: shifted_def)
  qed
  have fin: "shifted = tensor_of ?s (expected_output layer x)"
    unfolding shifted_def
    by (rule tensor_of_cong)
      (simp add: scaled_def tget_tensor_of nval expected_output_def expected_value_def
        affine_value_def Let_def)
  have ax': "(if 0 \<le> axis layer then axis layer else axis layer + int ?n) = resolved_axis (axis layer) ?n"
    by (simp add: resolved_axis_def)
  show ?thesis
    unfolding InstanceNormalization_call_def Let_def ax' axes bshape
    by (simp only: rb rg ebind_Inr sd ce no normed_def [symmetric] sc sf fin)
qed


lemma broadcast_op_error: "broadcast_op f a b = Inl e \<Longrightarrow> e = ShapeMismatch"
  by (auto simp add: broadcast_op_def split: option.splits)

lemma reshape_to_error: "reshape_to t s = Inl e \<Longrightarrow> e = ShapeMismatch"
  by (auto simp add: reshape_to_def reshape_def split: option.splits if_splits)

lemma dot_weighted_rows:
  "shape m = [length v, c] \<Longrightarrow> dot v m = Inr (weighted_rows v m)"
  by (simp add: dot_def weighted_rows_def)

lemma ebind_shape_error:
  "(\<And>e. m = Inl e \<Longrightarrow> e = ShapeMismatch) \<Longrightarrow> ebind m (\<lambda>u. Inl ShapeMismatch) = Inl ShapeMismatch"
  by (cases m) simp_all

lemma ConditionalInstanceNormalization_call_plain:
  assumes v: "sw layer = Some v"
    and g: "gamma layer = Some gT" "shape gT = [length v, cg]"
    and b: "beta layer = Some bT" "shape bT = [length v, cb]"
    and pl: "axis pl = axis layer" "epsilon pl = epsilon layer"
      "center pl = Some True" "scale pl = Some True"
      "gamma pl = Some (weighted_rows v gT)" "beta pl = Some (weighted_rows v bT)"
  shows "ConditionalInstanceNormalization_call layer x = InstanceNormalization_call pl x"
proof -
  let ?n = "length (shape x)"
  define ax where "ax = (if 0 \<le> axis layer then axis layer else axis layer + int ?n)"
  define bs where "bs = assign_dim (pyListRepeat 1 ?n) ax (shape x)"
  let ?mv = "moments x (splice1 (range_js 0 ?n) ax)"
  let ?RB = "reshape_to (weighted_rows v bT) bs"
  let ?RG = "reshape_to (weighted_rows v gT) bs"
  obtain stddev where sd: "tadd (tsqrt (snd ?mv)) (scalar (epsilon layer)) = Inr stddev"
    by (simp add: tadd_def broadcast_op_scalar)
  have eB: "e = ShapeMismatch" if "tsub x (fst ?mv) = Inl e" for e
    using that unfolding tsub_def by (rule broadcast_op_error)
  have eD: "e = ShapeMismatch" if "tdiv c stddev = Inl e" for e c
    using that unfolding tdiv_def by (rule broadcast_op_error)
  have fail: "ebind (tsub x (fst ?mv)) (\<lambda>c. ebind (tdiv c stddev) (\<lambda>t. Inl ShapeMismatch))
                = Inl ShapeMismatch"
    using eB eD by (simp add: ebind_shape_error)
  have cond: "ConditionalInstanceNormalization_call layer x =
      ebind (tsub x (fst ?mv)) (\<lambda>c. ebind (tdiv c stddev) (\<lambda>normed.
        ebind ?RB (\<lambda>bB. ebind ?RG (\<lambda>bG. ebind (qmul normed bG) (\<lambda>t. qadd t bB)))))"
    unfolding ConditionalInstanceNormalization_call_def Let_def ax_def [symmetric] bs_def [symmetric]
    by (simp add: v g b read_weight_def dot_weighted_rows sd)
  have plain: "InstanceNormalization_call pl x =
      ebind (map_sum id Some ?RB) (\<lambda>bBo. ebind (map_sum id Some ?RG) (\<lambda>bGo.
        ebind (tsub x (fst ?mv)) (\<lambda>c. ebind (tdiv c stddev) (\<lambda>normed.
          ebind (ebind (read_weight bGo) (qmul normed)) (\<lambda>t.
          ebind (read_weight bBo) (qadd t))))))"
    unfolding InstanceNormalization_call_def Let_def pl ax_def [symmetric] bs_def [symmetric]
    by (simp add: truthy_def read_weight_def sd)
  show ?thesis
  proof (cases ?RB)
    case (Inl e)
    then have RB: "?RB = Inl ShapeMismatch" using reshape_to_error by blast
    show ?thesis unfolding cond plain by (simp add: RB fail)
  next
    case RB: (Inr bB)
    show ?thesis
    proof (cases ?RG)
      case (Inl e)
      then have RG: "?RG = Inl ShapeMismatch" using reshape_to_error by blast
      show ?thesis unfolding cond plain by (simp add: RB RG fail)
    next
      case RG: (Inr bG)
      show ?thesis unfolding cond plain
        by (simp add: RB RG read_weight_def)
    qed
  qed
qed

text \<open>A conditional layer without a selector, as the constructor leaves it, takes the
  branch of \<^verbatim>\<open>call\<close> that reads the options: with the channel axis last, where the
  subtraction and the division succeed, it computes what the plain layer computes.\<close>

lemma ConditionalInstanceNormalization_call_no_selector:
  assumes v: "sw layer = None"
    and ne: "shape x \<noteq> []"
    and ax: "resolved_axis (axis layer) (length (shape x)) = int (length (shape x)) - 1"
    and pl: "axis pl = axis layer" "epsilon pl = epsilon layer"
      "center pl = center layer" "scale pl = scale layer"
      "gamma pl = gamma layer" "beta pl = beta layer"
  shows "ConditionalInstanceNormalization_call layer x = InstanceNormalization_call pl x"
proof -
  let ?s = "shape x"
  let ?n = "length ?s"
  have n: "0 < ?n" using ne by simp
  have axes: "splice1 (range_js 0 ?n) (resolved_axis (axis layer) ?n) = [0..<?n - 1]"
    using splice1_last [OF n] by (simp add: ax range_js_def)
  have ax': "(if 0 \<le> axis layer then axis layer else axis layer + int ?n) = resolved_axis (axis layer) ?n"
    by (simp add: resolved_axis_def)
  obtain stddev centred normed where
    sd: "tadd (tsqrt (snd (moments x [0..<?n - 1]))) (scalar (epsilon layer)) = Inr stddev"
    and ce: "tsub x (fst (moments x [0..<?n - 1])) = Inr centred"
    and no: "tdiv centred stddev = Inr normed"
    using standardize_last_axis [OF ne, of "epsilon layer"] by blast
  show ?thesis
    unfolding ConditionalInstanceNormalization_call_def InstanceNormalization_call_def Let_def
      pl ax' axes
    by (simp only: v sd ce no ebind_Inr option.case)
qed

text \<open>When \<open>dot\<close> rejects the selector and the table, the conditional forward pass
  fails: the subtraction and the division before it raise nothing else.\<close>

lemma ConditionalInstanceNormalization_call_no_row:
  assumes v: "sw layer = Some v" and b: "beta layer = Some bT" and d: "dot v bT = Inl e"
  shows "ConditionalInstanceNormalization_call layer x = Inl ShapeMismatch"
proof -
  let ?n = "length (shape x)"
  define ax where "ax = (if 0 \<le> axis layer then axis layer else axis layer + int ?n)"
  let ?mv = "moments x (splice1 (range_js 0 ?n) ax)"
  obtain stddev where sd: "tadd (tsqrt (snd ?mv)) (scalar (epsilon layer)) = Inr stddev"
    by (simp add: tadd_def broadcast_op_scalar)
  have e: "e = ShapeMismatch" using d by (auto simp add: dot_def split: if_splits)
  have eB: "e = ShapeMismatch" if "tsub x (fst ?mv) = Inl e" for e
    using that unfolding tsub_def by (rule broadcast_op_error)
  have eD: "e = ShapeMismatch" if "tdiv c stddev = Inl e" for e c
    using that unfolding tdiv_def by (rule broadcast_op_error)
  have fail: "ebind (tsub x (fst ?mv)) (\<lambda>c. ebind (tdiv c stddev) (\<lambda>t. Inl ShapeMismatch))
                = Inl ShapeMismatch"
    using eB eD by (simp add: ebind_shape_error)
  show ?thesis
    unfolding ConditionalInstanceNormalization_call_def Let_def ax_def [symmetric]
    by (simp add: v b read_weight_def d e sd fail)
qed

section \<open>Facts about selectors and statistics\<close>

lemma sum_one_hot:
  "sum_list (map (\<lambda>s. (if s = i then 1 else 0) * f s) [0..<n]) = (if i < n then f i else (0::real))"
  by (induction n) (auto simp add: less_Suc_eq)

lemma length_one_hot [simp]: "length (one_hot n i) = n"
  by (simp add: one_hot_def)

lemma weighted_rows_one_hot:
  assumes "i < n"
  shows "weighted_rows (one_hot n i) m = table_row m i"
proof -
  have "sum_list (map (\<lambda>s. one_hot n i ! s * tget m [s, j ! 0]) [0..<n]) = tget m [i, j ! 0]" for j
  proof -
    have "map (\<lambda>s. one_hot n i ! s * tget m [s, j ! 0]) [0..<n]
            = map (\<lambda>s. (if s = i then 1 else 0) * tget m [s, j ! 0]) [0..<n]"
      by (rule map_cong) (simp_all add: one_hot_def)
    then show ?thesis using assms by (simp only: sum_one_hot if_True)
  qed
  then show ?thesis by (simp add: weighted_rows_def table_row_def)
qed

lemma selector_init_one_hot: "0 < n \<Longrightarrow> selector_init (Some (int n)) = one_hot n 0"
proof -
  assume "0 < n"
  then obtain m where m: "n = Suc m" by (cases n) auto
  have "[0..<Suc m] = 0 # map Suc [0..<m]"
    by (simp add: map_Suc_upt upt_conv_Cons del: upt_Suc)
  then have "map (\<lambda>s. if s = 0 then 1 else (0::real)) [0..<Suc m] = 1 # replicate m 0"
    by (simp add: comp_def map_replicate_const del: upt_Suc)
  moreover have "nat (1 + int m) = Suc m" by simp
  ultimately show ?thesis by (simp add: selector_init_def one_hot_def m Let_def del: upt_Suc)
qed

lemma var_list_nonneg: "0 \<le> var_list vs"
  by (auto simp add: var_list_def intro!: divide_nonneg_nonneg sum_list_nonneg)

lemma broadcast_op_scalar_vals:
  assumes "wf_tensor x"
  shows "broadcast_op f x (scalar c) = Inr \<lparr>shape = shape x, vals = map (\<lambda>v. f v c) (vals x)\<rparr>"
proof -
  have "tensor_of (shape x) (\<lambda>i. f (tget x i) c) = \<lparr>shape = shape x, vals = map (\<lambda>v. f v c) (vals x)\<rparr>"
  proof (rule tensor_eqI)
    fix i assume "valid_index (shape (tensor_of (shape x) (\<lambda>i. f (tget x i) c))) i"
    then have v: "valid_index (shape x) i" by simp
    then have "ravel (shape x) i < length (vals x)"
      using assms ravel_less by (simp add: wf_tensor_def)
    then have "tget \<lparr>shape = shape x, vals = map (\<lambda>v. f v c) (vals x)\<rparr> i = f (tget x i) c"
      by (simp add: tget_def)
    then show "tget (tensor_of (shape x) (\<lambda>i. f (tget x i) c)) i
                 = tget \<lparr>shape = shape x, vals = map (\<lambda>v. f v c) (vals x)\<rparr> i"
      using v by (simp only: tget_tensor_of)
  next
    show "wf_tensor (tensor_of (shape x) (\<lambda>i. f (tget x i) c))" by simp
  next
    show "wf_tensor \<lparr>shape = shape x, vals = map (\<lambda>v. f v c) (vals x)\<rparr>"
      using assms by (simp add: wf_tensor_def)
  qed simp
  then show ?thesis by (simp add: broadcast_op_scalar)
qed

section \<open>The forward passes in closed form\<close>

lemma tensor_of_Some: "tensor_of sh (\<lambda>i. Some (f i)) = finite_quotient (tensor_of sh f)"
  by (simp add: tensor_of_def finite_quotient_def)

lemma shape_finite_quotient [simp]: "shape (finite_quotient t) = shape t"
  by (simp add: finite_quotient_def)

lemma InstanceNormalization_call_output:
  assumes cl: "channels_last (axis layer) x"
    and g: "weight_fits (scale layer) (gamma layer) x"
    and b: "weight_fits (center layer) (beta layer) x"
  shows "InstanceNormalization_call layer x = Inr (tensor_of (shape x) (expected_output layer x))"
proof -
  have "truthy (scale layer) \<Longrightarrow> \<exists>t. gamma layer = Some t \<and> shape t = [last (shape x)]"
    using g by (auto simp add: weight_fits_def split: option.splits)
  moreover have "truthy (center layer) \<Longrightarrow> \<exists>t. beta layer = Some t \<and> shape t = [last (shape x)]"
    using b by (auto simp add: weight_fits_def split: option.splits)
  ultimately show ?thesis
    using InstanceNormalization_call_last_axis [of x layer] cl
    by (simp add: channels_last_def)
qed

lemma InstanceNormalization_call_expected:
  assumes cl: "channels_last (axis layer) x"
    and g: "weight_fits (scale layer) (gamma layer) x"
    and b: "weight_fits (center layer) (beta layer) x"
    and nz: "\<forall>c < last (shape x). sqrt (channel_var x c) + epsilon layer \<noteq> 0"
  shows "InstanceNormalization_call layer x
           = Inr (finite_quotient (tensor_of (shape x) (expected_value layer x)))"
proof -
  have ne: "shape x \<noteq> []" using cl by (simp add: channels_last_def)
  have "tensor_of (shape x) (expected_output layer x)
          = tensor_of (shape x) (\<lambda>i. Some (expected_value layer x i))"
  proof (rule tensor_of_cong)
    fix i assume "valid_index (shape x) i"
    then have "last i < last (shape x)" using ne by (rule valid_index_last)
    then show "expected_output layer x i = Some (expected_value layer x i)"
      using nz by (simp add: expected_output_def)
  qed
  then show ?thesis
    using InstanceNormalization_call_output [OF cl g b] by (simp only: tensor_of_Some)
qed

lemma ConditionalInstanceNormalization_call_effective:
  assumes "sw layer = Some v"
    and "gamma layer = Some gT" "shape gT = [length v, cg]"
    and "beta layer = Some bT" "shape bT = [length v, cb]"
  shows "ConditionalInstanceNormalization_call layer x =
           InstanceNormalization_call
             (effective_layer (axis layer) (epsilon layer) (weighted_rows v gT) (weighted_rows v bT)) x"
  by (rule ConditionalInstanceNormalization_call_plain [OF assms]) (simp_all add: effective_layer_def)

lemma ConditionalInstanceNormalization_build_styles:
  assumes "0 < n" and "style_num fresh = Some (int n)"
    and "build_dim (axis fresh) inputShape = Some d"
  shows "ConditionalInstanceNormalization_build fresh inputShape
           = Inr (fresh\<lparr>gamma := Some (ones [n, d]), beta := Some (zeros [n, d]),
                       sw := Some (one_hot n 0)\<rparr>)"
proof -
  have "\<not> int n * int d < 0" by (simp add: mult_less_0_iff)
  then have "addWeight [Some (int n), Some (int d)] initializer = Inr (initializer [n, d])"
    for initializer
    by (simp add: addWeight_def weight_extent_def)
  then show ?thesis
    using assms
    by (simp add: ConditionalInstanceNormalization_build_def build_dim_def Let_def
        selector_init_one_hot)
qed

lemma ConditionalInstanceNormalization_build_no_styles:
  assumes "style_num fresh = None" and "build_dim (axis fresh) inputShape = Some d"
  shows "ConditionalInstanceNormalization_build fresh inputShape
           = Inr (fresh\<lparr>gamma := Some (ones [0, d]), beta := Some (zeros [0, d]),
                       sw := Some [1]\<rparr>)"
  using assms
  by (simp add: ConditionalInstanceNormalization_build_def build_dim_def Let_def
      addWeight_def weight_extent_def selector_init_def)

lemma stats_batch_of_two: "channel_mean batch_of_two 0 = 1" "channel_var batch_of_two 0 = 1"
  by code_simp+

lemma stats_row_0_2: "channel_mean row_0_2 0 = 1" "channel_var row_0_2 0 = 1"
  by code_simp+

lemma stats_two_channels:
  "channel_mean two_channels 0 = 1" "channel_var two_channels 0 = 1"
  "channel_mean two_channels (Suc 0) = 5" "channel_var two_channels (Suc 0) = 0"
  by code_simp+

lemma tensor_of_vals:
  "tensor_of sh f = \<lparr>shape = sh, vals = map f (map (unravel sh) [0..<prod_list sh])\<rparr>"
  by (simp add: tensor_of_def)

lemma stddev_plus_default_epsilon: "sqrt (channel_var x c) + 1 / 1000 \<noteq> 0"
proof -
  have "0 \<le> sqrt (channel_var x c)" by (simp add: channel_var_def var_list_nonneg)
  then show ?thesis by linarith
qed

text \<open>Why the theorems ask for the channel axis to be the last one. The moments come back
  with shape \<open>[channels]\<close> and are broadcast against the last axis of the input. With the
  channels on axis 1 and a last axis of another extent, the subtraction is rejected; were
  the two extents equal, each element would be paired with the mean of the channel that
  its column index names.\<close>

lemma channel_axis_other_than_last:
  "InstanceNormalization_call channels_first_layer channels_first_input = Inl ShapeMismatch"
proof -
  have ax: "splice1 (range_js 0 4) 1 = [0, 2, 3]" by code_simp
  have sub: "tsub channels_first_input (fst (moments channels_first_input [0, 2, 3]))
               = Inl ShapeMismatch"
    by code_simp
  have sh: "shape channels_first_input = [1, 2, 1, 3]" by (simp add: channels_first_input_def)
  obtain stddev where sd:
    "tadd (tsqrt (snd (moments channels_first_input [0, 2, 3]))) (scalar (1 / 1000)) = Inr stddev"
    by (simp add: tadd_def broadcast_op_scalar)
  have "length (shape channels_first_input) = 4" by (simp add: sh)
  then have ax': "splice1 (range_js 0 (length (shape channels_first_input))) 1 = [0, 2, 3]"
    using ax by (simp only:)
  have a: "(if 0 \<le> axis channels_first_layer then axis channels_first_layer
            else axis channels_first_layer + int (length (shape channels_first_input))) = 1"
    by (simp add: channels_first_layer_def)
  have c: "truthy (center channels_first_layer) = False" "truthy (scale channels_first_layer) = False"
    "epsilon channels_first_layer = 1 / 1000"
    by (simp_all add: channels_first_layer_def truthy_def)
  show ?thesis
    unfolding InstanceNormalization_call_def Let_def a ax' c
    by (simp only: sd sub ebind_Inr ebind_Inl if_False)
qed

section \<open>Facts about reflection pd\<close>

lemma reflection2dPadding_steps:
  "reflection2dPadding x pd =
     ebind (pad_cols x (fst (fst pd)))
       (\<lambda>r. pad_rows (int (shape x ! 1)) r (fst (fst pd)))"
  by (simp add: reflection2dPadding_def pad_cols_def pad_rows_def Let_def ebind_assoc)

lemma valid4 [simp]:
  "valid_index [B, H, W, C] i = (\<exists>b r c ch. i = [b, r, c, ch] \<and> b < B \<and> r < H \<and> c < W \<and> ch < C)"
  by auto

lemma gather_Inr:
  assumes "ax < length (shape x)"
    and "\<forall>k \<in> set indices. 0 \<le> k \<and> k < int (shape x ! ax)"
  shows "gather x indices ax =
           Inr (tensor_of ((shape x)[ax := length indices])
                  (\<lambda>i. tget x (i[ax := nat (indices ! (i ! ax))])))"
  using assms by (auto simp add: gather_def list_ex_iff)

lemma concat2_Inr:
  assumes "ax < length (shape a)" and "(shape a)[ax := 0] = (shape b)[ax := 0]"
  shows "concat2 a b ax =
           Inr (tensor_of ((shape a)[ax := shape a ! ax + shape b ! ax])
                  (\<lambda>i. if i ! ax < shape a ! ax then tget a i
                       else tget b (i[ax := i ! ax - shape a ! ax])))"
  using assms by (simp add: concat2_def)

lemma leftTop_nth: "k < nat p \<Longrightarrow> rev [0..p - 1] ! k = p - 1 - int k"
proof -
  assume k: "k < nat p"
  then have "rev [0..p - 1] ! k = [0..p - 1] ! (nat p - Suc k)"
    by (simp add: rev_nth)
  also have "\<dots> = 0 + int (nat p - Suc k)"
    using k by (intro nth_upto) linarith
  also have "\<dots> = p - 1 - int k" using k by linarith
  finally show ?thesis .
qed

lemma leftTop_set: "k \<in> set (rev [0..p - 1]) \<Longrightarrow> 0 \<le> k \<and> k < p"
  by auto

lemma rightIndex_nth: "k < nat p \<Longrightarrow> map (\<lambda>i. w - i) [1..p] ! k = w - 1 - int k"
  by (simp add: nth_upto)

lemma rightIndex_set: "k \<in> set (map (\<lambda>i. w - i) [1..p]) \<Longrightarrow> w - p \<le> k \<and> k < w"
  by auto

lemma pad_cols_ok:
  assumes sh: "shape x = [B, H, W, C]" and pW: "nat p \<le> W"
  shows "\<exists>r. pad_cols x p = Inr r \<and> wf_tensor r \<and> shape r = [B, H, W + 2 * nat p, C] \<and>
           (\<forall>b i j c. b < B \<and> i < H \<and> j < W + 2 * nat p \<and> c < C \<longrightarrow>
              tget r [b, i, j, c] = tget x [b, i, symIndex (nat p) W j, c])"
proof -
  let ?right = "map (\<lambda>i. int (shape x ! 2) - i) [1..p]"
  let ?left = "rev [0..p - 1]"
  define b1 where "b1 = tensor_of ((shape x)[2 := length ?right])
                          (\<lambda>i. tget x (i[2 := nat (?right ! (i ! 2))]))"
  define r1 where "r1 = tensor_of ((shape x)[2 := shape x ! 2 + shape b1 ! 2])
                  (\<lambda>i. if i ! 2 < shape x ! 2 then tget x i
                       else tget b1 (i[2 := i ! 2 - shape x ! 2]))"
  define b2 where "b2 = tensor_of ((shape x)[2 := length ?left])
                          (\<lambda>i. tget x (i[2 := nat (?left ! (i ! 2))]))"
  define r2 where "r2 = tensor_of ((shape b2)[2 := shape b2 ! 2 + shape r1 ! 2])
                  (\<lambda>i. if i ! 2 < shape b2 ! 2 then tget b2 i
                       else tget r1 (i[2 := i ! 2 - shape b2 ! 2]))"
  have shb1: "shape b1 = [B, H, nat p, C]" by (simp add: b1_def sh)
  have sh1: "shape r1 = [B, H, W + nat p, C]" by (simp add: r1_def shb1 sh)
  have shb2: "shape b2 = [B, H, nat p, C]" by (simp add: b2_def sh)
  have sh2: "shape r2 = [B, H, W + 2 * nat p, C]" by (simp add: r2_def shb2 sh1)
  have g1: "gather x ?right 2 = Inr b1"
    unfolding b1_def using sh pW by (intro gather_Inr) auto
  have c1: "concat2 x b1 2 = Inr r1"
    unfolding r1_def by (rule concat2_Inr) (simp_all add: sh shb1)
  have g2: "gather x ?left 2 = Inr b2"
    unfolding b2_def using sh pW by (intro gather_Inr) auto
  have c2: "concat2 b2 r1 2 = Inr r2"
    unfolding r2_def by (rule concat2_Inr) (simp_all add: sh1 shb2)
  have run: "pad_cols x p = Inr r2"
    by (simp only: pad_cols_def Let_def g1 c1 g2 c2 ebind_Inr)
  have t1: "tget r1 [b, i, j, c] =
              (if j < W then tget x [b, i, j, c] else tget x [b, i, 2 * W - 1 - j, c])"
    if "b < B" "i < H" "j < W + nat p" "c < C" for b i j c
  proof (cases "j < W")
    case True
    then show ?thesis using that by (simp add: r1_def sh shb1 tget_tensor_of)
  next
    case False
    define k where "k = j - W"
    have k: "k < nat p" "j = W + k" using False that by (auto simp add: k_def)
    have "tget r1 [b, i, j, c] = tget b1 [b, i, k, c]"
      using that False by (simp add: r1_def sh shb1 tget_tensor_of k_def)
    also have "\<dots> = tget x [b, i, nat (?right ! k), c]"
      using that k by (simp add: b1_def sh tget_tensor_of)
    also have "nat (?right ! k) = 2 * W - 1 - j"
      using k pW by (simp add: rightIndex_nth sh; linarith)
    finally show ?thesis using False by simp
  qed
  have t2: "tget r2 [b, i, j, c] = tget x [b, i, symIndex (nat p) W j, c]"
    if "b < B" "i < H" "j < W + 2 * nat p" "c < C" for b i j c
  proof (cases "j < nat p")
    case True
    then have "tget r2 [b, i, j, c] = tget b2 [b, i, j, c]"
      using that by (simp add: r2_def sh1 shb2 tget_tensor_of)
    also have "\<dots> = tget x [b, i, nat (?left ! j), c]"
      using that True by (simp add: b2_def sh tget_tensor_of)
    also have "nat (?left ! j) = nat p - 1 - j"
      using True by (simp add: leftTop_nth; linarith)
    finally show ?thesis using True by (simp add: symIndex_def)
  next
    case False
    then have "tget r2 [b, i, j, c] = tget r1 [b, i, j - nat p, c]"
      using that by (simp add: r2_def sh1 shb2 tget_tensor_of)
    also have "\<dots> = tget x [b, i, symIndex (nat p) W j, c]"
      using that False pW
      by (subst t1) (auto simp add: symIndex_def intro!: arg_cong [where f = "\<lambda>v. tget x [b, i, v, c]"])
    finally show ?thesis .
  qed
  have "wf_tensor r2" by (simp add: r2_def)
  then show ?thesis using run sh2 t2 by auto
qed

lemma pad_rows_ok:
  assumes sh: "shape y = [B, H, W, C]" and pH: "nat p \<le> H"
  shows "\<exists>r. pad_rows (int H) y p = Inr r \<and> wf_tensor r \<and> shape r = [B, H + 2 * nat p, W, C] \<and>
           (\<forall>b i j c. b < B \<and> i < H + 2 * nat p \<and> j < W \<and> c < C \<longrightarrow>
              tget r [b, i, j, c] = tget y [b, symIndex (nat p) H i, j, c])"
proof -
  let ?bottom = "map (\<lambda>i. int H + p - i) [1..p]"
  let ?top = "rev [0..p - 1]"
  define b3 where "b3 = tensor_of ((shape y)[1 := length ?top])
                          (\<lambda>i. tget y (i[1 := nat (?top ! (i ! 1))]))"
  define r3 where "r3 = tensor_of ((shape b3)[1 := shape b3 ! 1 + shape y ! 1])
                  (\<lambda>i. if i ! 1 < shape b3 ! 1 then tget b3 i
                       else tget y (i[1 := i ! 1 - shape b3 ! 1]))"
  define b4 where "b4 = tensor_of ((shape r3)[1 := length ?bottom])
                          (\<lambda>i. tget r3 (i[1 := nat (?bottom ! (i ! 1))]))"
  define r4 where "r4 = tensor_of ((shape r3)[1 := shape r3 ! 1 + shape b4 ! 1])
                  (\<lambda>i. if i ! 1 < shape r3 ! 1 then tget r3 i
                       else tget b4 (i[1 := i ! 1 - shape r3 ! 1]))"
  have shb3: "shape b3 = [B, nat p, W, C]" by (simp add: b3_def sh)
  have sh3: "shape r3 = [B, nat p + H, W, C]" by (simp add: r3_def shb3 sh)
  have shb4: "shape b4 = [B, nat p, W, C]" by (simp add: b4_def sh3)
  have sh4: "shape r4 = [B, H + 2 * nat p, W, C]" by (simp add: r4_def shb4 sh3)
  have g1: "gather y ?top 1 = Inr b3"
    unfolding b3_def using sh pH by (intro gather_Inr) auto
  have c1: "concat2 b3 y 1 = Inr r3"
    unfolding r3_def by (rule concat2_Inr) (simp_all add: sh shb3)
  have g2: "gather r3 ?bottom 1 = Inr b4"
    unfolding b4_def using sh3 pH by (intro gather_Inr) auto
  have c2: "concat2 r3 b4 1 = Inr r4"
    unfolding r4_def by (rule concat2_Inr) (simp_all add: sh3 shb4)
  have run: "pad_rows (int H) y p = Inr r4"
    by (simp only: pad_rows_def Let_def g1 c1 g2 c2 ebind_Inr)
  have t3: "tget r3 [b, i, j, c] =
              (if i < nat p then tget y [b, nat p - 1 - i, j, c] else tget y [b, i - nat p, j, c])"
    if "b < B" "i < nat p + H" "j < W" "c < C" for b i j c
    using that by (auto simp add: r3_def b3_def sh tget_tensor_of leftTop_nth nat_diff_distrib)
  have t4: "tget r4 [b, i, j, c] = tget y [b, symIndex (nat p) H i, j, c]"
    if "b < B" "i < H + 2 * nat p" "j < W" "c < C" for b i j c
  proof (cases "i < nat p + H")
    case True
    then have "tget r4 [b, i, j, c] = tget r3 [b, i, j, c]"
      using that by (simp add: r4_def sh3 shb4 tget_tensor_of)
    then show ?thesis using True that by (auto simp add: t3 symIndex_def)
  next
    case False
    define k where "k = i - (nat p + H)"
    have k: "k < nat p" "i = nat p + H + k" using False that by (auto simp add: k_def)
    have "tget r4 [b, i, j, c] = tget b4 [b, k, j, c]"
      using that False by (simp add: r4_def sh3 shb4 tget_tensor_of k_def)
    also have "\<dots> = tget r3 [b, nat (?bottom ! k), j, c]"
      using that k by (simp add: b4_def sh3 tget_tensor_of)
    also have "nat (?bottom ! k) = nat p + H - 1 - k"
      using k by (simp add: rightIndex_nth)
    also have "tget r3 [b, nat p + H - 1 - k, j, c] = tget y [b, H - 1 - k, j, c]"
      using that k pH by (subst t3) (auto intro!: arg_cong [where f = "\<lambda>v. tget y [b, v, j, c]"])
    also have "H - 1 - k = symIndex (nat p) H i"
      using k pH by (simp add: symIndex_def)
    finally show ?thesis .
  qed
  have "wf_tensor r4" by (simp add: r4_def)
  then show ?thesis using run sh4 t4 by auto
qed


lemma symIndex_less: "p \<le> n \<Longrightarrow> j < n + 2 * p \<Longrightarrow> symIndex p n j < n"
  by (auto simp add: symIndex_def)

lemma reflection2dPadding_sym:
  assumes sh: "shape x = [B, H, W, C]"
    and pH: "nat (fst (fst pd)) \<le> H" and pW: "nat (fst (fst pd)) \<le> W"
  shows "\<exists>r. reflection2dPadding x pd = Inr r \<and> wf_tensor r \<and>
           shape r = [B, H + 2 * nat (fst (fst pd)), W + 2 * nat (fst (fst pd)), C] \<and>
           (\<forall>b i j c. b < B \<and> i < H + 2 * nat (fst (fst pd)) \<and>
                      j < W + 2 * nat (fst (fst pd)) \<and> c < C \<longrightarrow>
              tget r [b, i, j, c] =
                tget x [b, symIndex (nat (fst (fst pd))) H i,
                           symIndex (nat (fst (fst pd))) W j, c])"
proof -
  let ?p = "fst (fst pd)"
  obtain r2 where r2: "pad_cols x ?p = Inr r2" "shape r2 = [B, H, W + 2 * nat ?p, C]"
    and t2: "\<And>b i j c. b < B \<Longrightarrow> i < H \<Longrightarrow> j < W + 2 * nat ?p \<Longrightarrow> c < C \<Longrightarrow>
               tget r2 [b, i, j, c] = tget x [b, i, symIndex (nat ?p) W j, c]"
    using pad_cols_ok [OF sh pW] by blast
  obtain r4 where r4: "pad_rows (int H) r2 ?p = Inr r4" "wf_tensor r4"
      "shape r4 = [B, H + 2 * nat ?p, W + 2 * nat ?p, C]"
    and t4: "\<And>b i j c. b < B \<Longrightarrow> i < H + 2 * nat ?p \<Longrightarrow> j < W + 2 * nat ?p \<Longrightarrow> c < C \<Longrightarrow>
               tget r4 [b, i, j, c] = tget r2 [b, symIndex (nat ?p) H i, j, c]"
    using pad_rows_ok [OF r2(2) pH] by blast
  have run: "reflection2dPadding x pd = Inr r4"
    by (simp add: reflection2dPadding_steps r2 sh r4)
  have "tget r4 [b, i, j, c] = tget x [b, symIndex (nat ?p) H i, symIndex (nat ?p) W j, c]"
    if "b < B" "i < H + 2 * nat ?p" "j < W + 2 * nat ?p" "c < C" for b i j c
    using that t4 [of b i j c] t2 [of b "symIndex (nat ?p) H i" j c] symIndex_less [OF pH]
    by simp
  then show ?thesis using run r4 by blast
qed

lemma rows_then_cols:
  assumes sh: "shape x = [B, H, W, C]" and pH: "nat p \<le> H" and pW: "nat p \<le> W"
  shows "ebind (pad_rows (int (shape x ! 1)) x p) (\<lambda>r. pad_cols r p) =
         ebind (pad_cols x p) (\<lambda>r. pad_rows (int (shape x ! 1)) r p)"
proof -
  obtain r2 where r2: "pad_cols x p = Inr r2" "shape r2 = [B, H, W + 2 * nat p, C]"
    and t2: "\<And>b i j c. b < B \<Longrightarrow> i < H \<Longrightarrow> j < W + 2 * nat p \<Longrightarrow> c < C \<Longrightarrow>
               tget r2 [b, i, j, c] = tget x [b, i, symIndex (nat p) W j, c]"
    using pad_cols_ok [OF sh pW] by blast
  obtain r4 where r4: "pad_rows (int H) r2 p = Inr r4" "wf_tensor r4"
      "shape r4 = [B, H + 2 * nat p, W + 2 * nat p, C]"
    and t4: "\<And>b i j c. b < B \<Longrightarrow> i < H + 2 * nat p \<Longrightarrow> j < W + 2 * nat p \<Longrightarrow> c < C \<Longrightarrow>
               tget r4 [b, i, j, c] = tget r2 [b, symIndex (nat p) H i, j, c]"
    using pad_rows_ok [OF r2(2) pH] by blast
  obtain s2 where s2: "pad_rows (int H) x p = Inr s2" "shape s2 = [B, H + 2 * nat p, W, C]"
    and u2: "\<And>b i j c. b < B \<Longrightarrow> i < H + 2 * nat p \<Longrightarrow> j < W \<Longrightarrow> c < C \<Longrightarrow>
               tget s2 [b, i, j, c] = tget x [b, symIndex (nat p) H i, j, c]"
    using pad_rows_ok [OF sh pH] by blast
  obtain s4 where s4: "pad_cols s2 p = Inr s4" "wf_tensor s4"
      "shape s4 = [B, H + 2 * nat p, W + 2 * nat p, C]"
    and u4: "\<And>b i j c. b < B \<Longrightarrow> i < H + 2 * nat p \<Longrightarrow> j < W + 2 * nat p \<Longrightarrow> c < C \<Longrightarrow>
               tget s4 [b, i, j, c] = tget s2 [b, i, symIndex (nat p) W j, c]"
    using pad_cols_ok [OF s2(2) pW] by blast
  have "s4 = r4"
  proof (rule tensor_eqI)
    fix i assume "valid_index (shape s4) i"
    then obtain b r c ch where i: "i = [b, r, c, ch]" and
      bnd: "b < B" "r < H + 2 * nat p" "c < W + 2 * nat p" "ch < C"
      by (auto simp add: s4(3))
    show "tget s4 i = tget r4 i"
      using bnd u4 [of b r c ch] u2 [of b r "symIndex (nat p) W c" ch]
        t4 [of b r c ch] t2 [of b "symIndex (nat p) H r" c ch]
        symIndex_less [OF pH] symIndex_less [OF pW]
      by (simp add: i)
  qed (simp_all add: s4 r4)
  then show ?thesis by (simp add: sh s2 s4 r2 r4)
qed

text \<open>The mirror property of the border that the code builds: on both axes, with \<open>p\<close> the
  top margin, output position \<open>p - 1 - k\<close> equals output position \<open>p + k\<close>.\<close>

lemma symIndex_mirror: "k < p \<Longrightarrow> p \<le> n \<Longrightarrow> symIndex p n (p - 1 - k) = symIndex p n (p + k)"
  by (auto simp add: symIndex_def)

lemma mirror_property_of_the_top_margin:
  assumes sh: "shape x = [B, H, W, C]"
    and pH: "nat (fst (fst pd)) \<le> H" and pW: "nat (fst (fst pd)) \<le> W"
    and k: "k < nat (fst (fst pd))"
  shows "\<exists>r. reflection2dPadding x pd = Inr r
           \<and> (\<forall>b i c. b < B \<and> i < H + 2 * nat (fst (fst pd)) \<and> c < C \<longrightarrow>
                 tget r [b, i, nat (fst (fst pd)) - 1 - k, c] = tget r [b, i, nat (fst (fst pd)) + k, c])
           \<and> (\<forall>b j c. b < B \<and> j < W + 2 * nat (fst (fst pd)) \<and> c < C \<longrightarrow>
                 tget r [b, nat (fst (fst pd)) - 1 - k, j, c] = tget r [b, nat (fst (fst pd)) + k, j, c])"
proof -
  let ?p = "nat (fst (fst pd))"
  obtain r where r: "reflection2dPadding x pd = Inr r"
    and t: "\<And>b i j c. b < B \<Longrightarrow> i < H + 2 * ?p \<Longrightarrow> j < W + 2 * ?p \<Longrightarrow> c < C \<Longrightarrow>
              tget r [b, i, j, c] = tget x [b, symIndex ?p H i, symIndex ?p W j, c]"
    using reflection2dPadding_sym [OF sh pH pW] by blast
  have lo: "?p - 1 - k < u + 2 * ?p" and hi: "?p + k < u + 2 * ?p" if "?p \<le> u" for u
    using k that by simp_all
  have cols: "tget r [b, i, ?p - 1 - k, c] = tget r [b, i, ?p + k, c]"
    if "b < B" "i < H + 2 * ?p" "c < C" for b i c
    by (simp only: t [OF that(1,2) lo [OF pW] that(3)] t [OF that(1,2) hi [OF pW] that(3)]
        symIndex_mirror [OF k pW])
  have rows: "tget r [b, ?p - 1 - k, j, c] = tget r [b, ?p + k, j, c]"
    if "b < B" "j < W + 2 * ?p" "c < C" for b j c
    by (simp only: t [OF that(1) lo [OF pH] that(2,3)] t [OF that(1) hi [OF pH] that(2,3)]
        symIndex_mirror [OF k pH])
  show ?thesis using r cols rows by blast
qed

section \<open>Claims about reflection padding\<close>



text \<open>
  C1 (amended). Let the four margins be equal to \<open>p\<close> with \<open>0 \<le> p \<le> min H W\<close>. Then the
  padding of an input of shape \<open>[batch, H, W, C]\<close> succeeds, and its element at row \<open>i\<close>
  and column \<open>j\<close> is the input's element at row \<open>symIndex p H i\<close> and column
  \<open>symIndex p W j\<close>. This index map repeats the edge: the \<open>k\<close>-th position before the
  interior (relative index \<open>-k\<close>) reads source \<open>k - 1\<close>, the \<open>k\<close>-th position after it
  (relative index \<open>n - 1 + k\<close>) reads source \<open>n - k\<close>, and interior positions read
  themselves. Padding the rows first and the columns second gives the same tensor.
\<close>

theorem reflection2dPadding_index_map:
  assumes "shape x = [B, H, W, C]" and "0 \<le> p" and "nat p \<le> H" and "nat p \<le> W"
  shows "(\<exists>r. reflection2dPadding x ((p, p), (p, p)) = Inr r
           \<and> (\<forall>b i j c. b < B \<and> i < H + 2 * nat p \<and> j < W + 2 * nat p \<and> c < C \<longrightarrow>
                 tget r [b, i, j, c] = tget x [b, symIndex (nat p) H i, symIndex (nat p) W j, c])
           \<and> ebind (pad_rows (int H) x p) (\<lambda>y. pad_cols y p) = Inr r)
         \<and> (\<forall>n k. 1 \<le> k \<and> k \<le> nat p \<longrightarrow>
               symIndex (nat p) n (nat p - k) = k - 1
               \<and> symIndex (nat p) n (nat p + n - 1 + k) = n - k)
         \<and> (\<forall>n j. j < n \<longrightarrow> symIndex (nat p) n (nat p + j) = j)"
proof -
  obtain r where r: "reflection2dPadding x ((p, p), (p, p)) = Inr r"
    and t: "\<forall>b i j c. b < B \<and> i < H + 2 * nat p \<and> j < W + 2 * nat p \<and> c < C \<longrightarrow>
              tget r [b, i, j, c] = tget x [b, symIndex (nat p) H i, symIndex (nat p) W j, c]"
    using reflection2dPadding_sym [of x B H W C "((p, p), (p, p))"] assms by auto
  have "ebind (pad_rows (int H) x p) (\<lambda>y. pad_cols y p) = reflection2dPadding x ((p, p), (p, p))"
    using rows_then_cols [of x B H W C p] assms
    by (simp add: reflection2dPadding_steps)
  then have first: "\<exists>r. reflection2dPadding x ((p, p), (p, p)) = Inr r
           \<and> (\<forall>b i j c. b < B \<and> i < H + 2 * nat p \<and> j < W + 2 * nat p \<and> c < C \<longrightarrow>
                 tget r [b, i, j, c] = tget x [b, symIndex (nat p) H i, symIndex (nat p) W j, c])
           \<and> ebind (pad_rows (int H) x p) (\<lambda>y. pad_cols y p) = Inr r"
    using r t by auto
  have before: "symIndex (nat p) n (nat p - k) = k - 1" if "1 \<le> k" "k \<le> nat p" for n k
    using that unfolding symIndex_def by (simp; arith)
  have after: "symIndex (nat p) n (nat p + n - 1 + k) = n - k" if "1 \<le> k" "k \<le> nat p" for n k
    using that unfolding symIndex_def by (simp; arith)
  have inside: "symIndex (nat p) n (nat p + j) = j" if "j < n" for n j
    using that by (simp add: symIndex_def)
  show ?thesis using first before after inside by blast
qed

theorem reflection2dPadding_index_map_witness:
  "shape image_2x3 = [1, 2, 3, 1] \<and> (0 :: int) \<le> 1 \<and> nat 1 \<le> (2 :: nat) \<and> nat 1 \<le> (3 :: nat)
   \<and> (\<exists>r. reflection2dPadding image_2x3 ((1, 1), (1, 1)) = Inr r
          \<and> tget r [0, 1, 0, 0] = 1 \<and> tget r [0, 1, 1, 0] = 1 \<and> tget r [0, 1, 4, 0] = 3
          \<and> tget r [0, 3, 2, 0] = 5)"
proof -
  have h: "shape image_2x3 = [1, 2, 3, 1]" "(0 :: int) \<le> 1" "nat 1 \<le> (2 :: nat)" "nat 1 \<le> (3 :: nat)"
    by (simp_all add: image_2x3_def)
  obtain r where r: "reflection2dPadding image_2x3 ((1, 1), (1, 1)) = Inr r"
    and t: "\<And>b i j c. b < 1 \<and> i < 2 + 2 * nat 1 \<and> j < 3 + 2 * nat 1 \<and> c < 1 \<Longrightarrow>
              tget r [b, i, j, c] = tget image_2x3 [b, symIndex (nat 1) 2 i, symIndex (nat 1) 3 j, c]"
    using reflection2dPadding_index_map [OF h] by blast
  have src: "tget image_2x3 [0, 0, 0, 0] = 1" "tget image_2x3 [0, 0, 2, 0] = 3"
    "tget image_2x3 [0, 1, 1, 0] = 5"
    by (simp_all add: tget_def image_2x3_def)
  have "tget r [0, 1, 0, 0] = 1" using t [of 0 1 0 0] src by (simp add: symIndex_def)
  moreover have "tget r [0, 1, 1, 0] = 1" using t [of 0 1 1 0] src by (simp add: symIndex_def)
  moreover have "tget r [0, 1, 4, 0] = 3" using t [of 0 1 4 0] src by (simp add: symIndex_def)
  moreover have "tget r [0, 3, 2, 0] = 5" using t [of 0 3 2 0] src by (simp add: symIndex_def)
  ultimately show ?thesis using h r by blast
qed

text \<open>
  C1 as stated fails. With margins 1 on the 2 by 3 image, the specification's map sends
  output row 1, column 0 to source row \<open>reflect (1 - 1) = 0\<close> and source column
  \<open>reflect (0 - 1) = 1\<close>, where the input holds 2; the padded tensor holds 1 there, the
  edge element.
\<close>

theorem reflection2dPadding_repeats_edge:
  "tget (projr (reflection2dPadding image_2x3 ((1, 1), (1, 1)))) [0, 1, 0, 0]
     \<noteq> tget image_2x3 [0, nat (reflect_spec (1 - 1) 2), nat (reflect_spec (0 - 1) 3), 0]"
  by code_simp

text \<open>
  C3 (code defect). The forward call sizes all four borders by the top margin, while
  \<open>computeOutputShape\<close> adds each margin to its own axis. For the padding
  \<open>[[1, 0], [0, 0]]\<close> and the 2 by 2 image the call returns shape \<open>[1, 4, 4, 1]\<close> and
  \<open>computeOutputShape\<close> announces \<open>[1, 3, 2, 1]\<close>.
\<close>

theorem call_shape_differs_from_computeOutputShape:
  "ebind (ReflectionPadding2D_constructor pad_top_only)
     (\<lambda>layer. map_sum id shape (ReflectionPadding2D_call layer image_2x2)) = Inr [1, 4, 4, 1]
   \<and> map_sum id (\<lambda>layer. computeOutputShape layer [Some 1, Some 2, Some 2, Some 1])
       (ReflectionPadding2D_constructor pad_top_only) = Inr [Some 1, Some 3, Some 2, Some 1]"
  by code_simp




text \<open>
  C8 (code defect). The mirror property is stated for the margin of each axis, but the
  forward call builds the columns from the top margin. With padding \<open>[[0, 0], [1, 1]]\<close>
  (left margin 1) the call returns the 2 by 3 image as it is, so output column
  \<open>left - 1 = 0\<close> holds 1 and output column \<open>left = 1\<close> holds 2.
\<close>

theorem left_margin_is_ignored:
  "ebind (ReflectionPadding2D_constructor pad_left_right)
     (\<lambda>layer. ReflectionPadding2D_call layer image_2x3) = Inr image_2x3
   \<and> tget image_2x3 [0, 0, 1 - 1 - 0, 0] \<noteq> tget image_2x3 [0, 0, 1 + 0, 0]"
  by code_simp

section \<open>Claims about the normalization layers\<close>

text \<open>
  C2 (amended). When the channel axis is the last axis, the forward pass standardizes
  every element with the mean and variance of its channel taken over all other axes, the
  batch axis included: one mean and one variance per channel, each over
  \<open>prod (butlast shape)\<close> elements, that is over all samples of the batch.
\<close>

theorem statistics_span_the_batch:
  assumes "channels_last (axis layer) x"
    and "weight_fits (scale layer) (gamma layer) x"
    and "weight_fits (center layer) (beta layer) x"
    and "\<forall>c < last (shape x). sqrt (channel_var x c) + epsilon layer \<noteq> 0"
  shows "\<exists>y. InstanceNormalization_call layer x = Inr (finite_quotient y) \<and> shape y = shape x
           \<and> (\<forall>i. valid_index (shape x) i \<longrightarrow>
                 tget y i =
                   affine_value (truthy (scale layer)) (truthy (center layer))
                     (gamma layer) (beta layer) (last i)
                     ((tget x i - channel_mean x (last i))
                        / (sqrt (channel_var x (last i)) + epsilon layer)))
           \<and> (\<forall>c < last (shape x).
                 channel_elems x c = map (tget x) (filter (\<lambda>i. last i = c) (all_indices (shape x)))
                 \<and> length (channel_elems x c) = prod_list (butlast (shape x)))"
proof -
  have ne: "shape x \<noteq> []" using assms(1) by (simp add: channels_last_def)
  have run: "InstanceNormalization_call layer x
               = Inr (finite_quotient (tensor_of (shape x) (expected_value layer x)))"
    using assms by (rule InstanceNormalization_call_expected)
  have "tget (tensor_of (shape x) (expected_value layer x)) i =
          affine_value (truthy (scale layer)) (truthy (center layer))
            (gamma layer) (beta layer) (last i)
            ((tget x i - channel_mean x (last i)) / (sqrt (channel_var x (last i)) + epsilon layer))"
    if "valid_index (shape x) i" for i
    using that by (simp add: tget_tensor_of expected_value_def normalized_value_def)
  moreover have "length (channel_elems x c) = prod_list (butlast (shape x))"
    if "c < last (shape x)" for c
    using count_last [OF ne that] by (simp add: channel_elems_def)
  ultimately have "shape (tensor_of (shape x) (expected_value layer x)) = shape x
           \<and> (\<forall>i. valid_index (shape x) i \<longrightarrow>
                 tget (tensor_of (shape x) (expected_value layer x)) i =
                   affine_value (truthy (scale layer)) (truthy (center layer))
                     (gamma layer) (beta layer) (last i)
                     ((tget x i - channel_mean x (last i))
                        / (sqrt (channel_var x (last i)) + epsilon layer)))
           \<and> (\<forall>c < last (shape x).
                 channel_elems x c = map (tget x) (filter (\<lambda>i. last i = c) (all_indices (shape x)))
                 \<and> length (channel_elems x c) = prod_list (butlast (shape x)))"
    by (simp add: channel_elems_def)
  then show ?thesis using run by blast
qed

theorem statistics_span_the_batch_witness:
  "channels_last (axis (InstanceNormalization_constructor default_args)) batch_of_two
   \<and> (\<exists>y. InstanceNormalization_call (InstanceNormalization_constructor default_args) batch_of_two
              = Inr (finite_quotient y)
          \<and> tget y [0, 0, 0, 0] = - 1000 / 1001 \<and> tget y [1, 0, 0, 0] = 1000 / 1001)
   \<and> channel_elems batch_of_two 0 = [0, 2]"
proof -
  let ?L = "InstanceNormalization_constructor default_args"
  have h: "channels_last (axis ?L) batch_of_two"
    "weight_fits (scale ?L) (gamma ?L) batch_of_two"
    "weight_fits (center ?L) (beta ?L) batch_of_two"
    by (simp_all add: InstanceNormalization_constructor_def default_args_def channels_last_def
        resolved_axis_def weight_fits_def truthy_def batch_of_two_def)
  have nz: "\<forall>c < last (shape batch_of_two). sqrt (channel_var batch_of_two c) + epsilon ?L \<noteq> 0"
    by (simp add: batch_of_two_def [THEN arg_cong, of shape] stats_batch_of_two
        InstanceNormalization_constructor_def default_args_def)
  obtain y where y: "InstanceNormalization_call ?L batch_of_two = Inr (finite_quotient y)"
    and t: "\<And>i. valid_index (shape batch_of_two) i \<Longrightarrow>
              tget y i = affine_value (truthy (scale ?L)) (truthy (center ?L)) (gamma ?L) (beta ?L)
                (last i) ((tget batch_of_two i - channel_mean batch_of_two (last i))
                            / (sqrt (channel_var batch_of_two (last i)) + epsilon ?L))"
    using statistics_span_the_batch [OF h nz] by blast
  have v: "valid_index (shape batch_of_two) [0, 0, 0, 0]" "valid_index (shape batch_of_two) [1, 0, 0, 0]"
    by (simp_all add: batch_of_two_def)
  have x: "tget batch_of_two [0, 0, 0, 0] = 0" "tget batch_of_two [Suc 0, 0, 0, 0] = 2"
    by (simp_all add: tget_def batch_of_two_def)
  have "tget y [0, 0, 0, 0] = - 1000 / 1001" "tget y [1, 0, 0, 0] = 1000 / 1001"
    using t [OF v(1)] t [OF v(2)]
    by (simp_all add: x stats_batch_of_two affine_value_def truthy_def
        InstanceNormalization_constructor_def default_args_def)
  moreover have "channel_elems batch_of_two 0 = [0, 2]" by code_simp
  ultimately show ?thesis using h(1) y by blast
qed

text \<open>
  C2 as stated fails. For a batch of two one-pixel samples with the values 0 and 2, a
  layer with default options standardizes both with the mean 1 and the variance 1 of the
  whole batch and returns \<open>-1000/1001\<close> and \<open>1000/1001\<close>; per-sample statistics (mean
  0 and 2, variance 0) give 0 for both.
\<close>

theorem statistics_are_not_per_sample:
  "InstanceNormalization_call (InstanceNormalization_constructor default_args) batch_of_two
     = Inr \<lparr>shape = [2, 1, 1, 1], vals = [Some (- 1000 / 1001), Some (1000 / 1001)]\<rparr>
   \<and> instance_norm_spec (1 / 1000) batch_of_two = \<lparr>shape = [2, 1, 1, 1], vals = [0, 0]\<rparr>"
proof -
  let ?L = "InstanceNormalization_constructor default_args"
  have h: "channels_last (axis ?L) batch_of_two"
    "weight_fits (scale ?L) (gamma ?L) batch_of_two"
    "weight_fits (center ?L) (beta ?L) batch_of_two"
    by (simp_all add: InstanceNormalization_constructor_def default_args_def channels_last_def
        resolved_axis_def weight_fits_def truthy_def batch_of_two_def)
  have nz: "\<forall>c < last (shape batch_of_two). sqrt (channel_var batch_of_two c) + epsilon ?L \<noteq> 0"
    by (simp add: batch_of_two_def [THEN arg_cong, of shape] stats_batch_of_two
        InstanceNormalization_constructor_def default_args_def)
  have x: "tget batch_of_two [0, 0, 0, 0] = 0" "tget batch_of_two [Suc 0, 0, 0, 0] = 2"
    by (simp_all add: tget_def batch_of_two_def)
  have sh: "shape batch_of_two = [2, 1, 1, 1]" by (simp add: batch_of_two_def)
  have "InstanceNormalization_call ?L batch_of_two
          = Inr (finite_quotient (tensor_of (shape batch_of_two) (expected_value ?L batch_of_two)))"
    using h nz by (rule InstanceNormalization_call_expected)
  moreover have "finite_quotient (tensor_of (shape batch_of_two) (expected_value ?L batch_of_two))
          = \<lparr>shape = [2, 1, 1, 1], vals = [Some (- 1000 / 1001), Some (1000 / 1001)]\<rparr>"
    by (simp add: sh tensor_of_def expected_value_def normalized_value_def affine_value_def
        truthy_def x stats_batch_of_two InstanceNormalization_constructor_def default_args_def
        numeral_2_eq_2 finite_quotient_def)
  moreover have s: "sample_channel_elems batch_of_two 0 0 = [0]"
    "sample_channel_elems batch_of_two (Suc 0) 0 = [2]"
    by code_simp+
  have "instance_norm_spec (1 / 1000) batch_of_two = \<lparr>shape = [2, 1, 1, 1], vals = [0, 0]\<rparr>"
    by (simp add: instance_norm_spec_def sh tensor_of_def s mean_list_def var_list_def x
        numeral_2_eq_2)
  ultimately show ?thesis by simp
qed

text \<open>
  C7 (amended). Let the channel axis be the last axis. At every position whose channel
  has \<open>sqrt variance + epsilon \<noteq> 0\<close>, the forward pass returns, before scaling and
  shifting, \<open>(x - mean) / (sqrt variance + epsilon)\<close> with the mean and the variance of
  that channel, \<open>epsilon\<close> being added after the square root; this holds whatever the
  other channels of the input are. Nothing is stated about the mean and the variance of
  the output.
\<close>

theorem epsilon_is_added_to_the_standard_deviation:
  assumes "channels_last (axis layer) x"
    and "weight_fits (scale layer) (gamma layer) x"
    and "weight_fits (center layer) (beta layer) x"
  shows "\<exists>y. InstanceNormalization_call layer x = Inr y \<and> shape y = shape x
           \<and> (\<forall>i. valid_index (shape x) i
                    \<and> sqrt (channel_var x (last i)) + epsilon layer \<noteq> 0 \<longrightarrow>
                 tget y i =
                   Some (affine_value (truthy (scale layer)) (truthy (center layer))
                           (gamma layer) (beta layer) (last i)
                           ((tget x i - channel_mean x (last i))
                              / (sqrt (channel_var x (last i)) + epsilon layer))))"
proof -
  let ?y = "tensor_of (shape x) (expected_output layer x)"
  have run: "InstanceNormalization_call layer x = Inr ?y"
    using assms by (rule InstanceNormalization_call_output)
  have val: "tget ?y i =
               Some (affine_value (truthy (scale layer)) (truthy (center layer))
                       (gamma layer) (beta layer) (last i)
                       ((tget x i - channel_mean x (last i))
                          / (sqrt (channel_var x (last i)) + epsilon layer)))"
    if "valid_index (shape x) i" "sqrt (channel_var x (last i)) + epsilon layer \<noteq> 0" for i
    using that
    by (simp add: tget_tensor_of expected_output_def expected_value_def normalized_value_def)
  have "shape ?y = shape x" by simp
  then show ?thesis using run val by blast
qed

theorem epsilon_is_added_to_the_standard_deviation_witness:
  "(\<exists>layer. InstanceNormalization_build (InstanceNormalization_constructor affine_args)
              [None, Some 1, Some 2, Some 2] = Inr layer
      \<and> channels_last (axis layer) two_channels
      \<and> (\<exists>y. InstanceNormalization_call layer two_channels = Inr y
             \<and> tget y [0, 0, 0, 0] = Some (- 1) \<and> tget y [0, 0, 1, 0] = Some 1))
   \<and> (\<exists>y. InstanceNormalization_call (InstanceNormalization_constructor default_args) row_0_2
             = Inr y
          \<and> tget y [0, 0, 0, 0] = Some ((0 - 1) / (sqrt 1 + 1 / 1000))
          \<and> (0 - 1) / (sqrt 1 + 1 / 1000) \<noteq> (0 - 1) / sqrt (1 + 1 / 1000))"
proof -
  define layer where "layer = \<lparr>axis = - 1, epsilon = 0, center = Some True, scale = Some True,
      gamma = Some (ones [2]), beta = Some (zeros [2])\<rparr>"
  have built: "InstanceNormalization_build (InstanceNormalization_constructor affine_args)
                 [None, Some 1, Some 2, Some 2] = Inr layer"
    by (simp add: InstanceNormalization_build_def InstanceNormalization_constructor_def
        affine_args_def layer_def truthy_def Let_def)
  have sh: "shape two_channels = [1, 1, 2, 2]" by (simp add: two_channels_def)
  have h: "channels_last (axis layer) two_channels"
    "weight_fits (scale layer) (gamma layer) two_channels"
    "weight_fits (center layer) (beta layer) two_channels"
    by (simp_all add: layer_def channels_last_def resolved_axis_def weight_fits_def truthy_def
        sh ones_def zeros_def)
  obtain y where y: "InstanceNormalization_call layer two_channels = Inr y"
    and t: "\<And>i. valid_index (shape two_channels) i
                  \<and> sqrt (channel_var two_channels (last i)) + epsilon layer \<noteq> 0 \<Longrightarrow>
              tget y i =
                Some (affine_value (truthy (scale layer)) (truthy (center layer))
                        (gamma layer) (beta layer) (last i)
                        ((tget two_channels i - channel_mean two_channels (last i))
                           / (sqrt (channel_var two_channels (last i)) + epsilon layer)))"
    using epsilon_is_added_to_the_standard_deviation [OF h] by blast
  have x: "tget two_channels [0, 0, 0, 0] = 0" "tget two_channels [0, 0, Suc 0, 0] = 2"
    by (simp_all add: tget_def two_channels_def)
  have w: "tget (ones [2]) [0] = 1" "tget (zeros [2]) [0] = 0"
    by (simp_all add: tget_def ones_def zeros_def)
  have "tget y [0, 0, 0, 0] = Some (- 1)" "tget y [0, 0, 1, 0] = Some 1"
    using t [of "[0, 0, 0, 0]"] t [of "[0, 0, 1, 0]"]
    by (simp_all add: sh x w stats_two_channels layer_def affine_value_def truthy_def)
  then have first: "\<exists>layer. InstanceNormalization_build (InstanceNormalization_constructor affine_args)
              [None, Some 1, Some 2, Some 2] = Inr layer
      \<and> channels_last (axis layer) two_channels
      \<and> (\<exists>y. InstanceNormalization_call layer two_channels = Inr y
             \<and> tget y [0, 0, 0, 0] = Some (- 1) \<and> tget y [0, 0, 1, 0] = Some 1)"
    using built h(1) y by blast
  let ?D = "InstanceNormalization_constructor default_args"
  have sh2: "shape row_0_2 = [1, 1, 2, 1]" by (simp add: row_0_2_def)
  have h2: "channels_last (axis ?D) row_0_2"
    "weight_fits (scale ?D) (gamma ?D) row_0_2"
    "weight_fits (center ?D) (beta ?D) row_0_2"
    by (simp_all add: InstanceNormalization_constructor_def default_args_def channels_last_def
        resolved_axis_def weight_fits_def truthy_def sh2)
  obtain z where z: "InstanceNormalization_call ?D row_0_2 = Inr z"
    and u: "\<And>i. valid_index (shape row_0_2) i
                  \<and> sqrt (channel_var row_0_2 (last i)) + epsilon ?D \<noteq> 0 \<Longrightarrow>
              tget z i =
                Some (affine_value (truthy (scale ?D)) (truthy (center ?D))
                        (gamma ?D) (beta ?D) (last i)
                        ((tget row_0_2 i - channel_mean row_0_2 (last i))
                           / (sqrt (channel_var row_0_2 (last i)) + epsilon ?D)))"
    using epsilon_is_added_to_the_standard_deviation [OF h2] by blast
  have x2: "tget row_0_2 [0, 0, 0, 0] = 0" by (simp add: tget_def row_0_2_def)
  have "tget z [0, 0, 0, 0] = Some ((0 - 1) / (sqrt 1 + 1 / 1000))"
    using u [of "[0, 0, 0, 0]"]
    by (simp add: sh2 x2 stats_row_0_2 InstanceNormalization_constructor_def default_args_def
        affine_value_def truthy_def)
  moreover have "(0 - 1) / (sqrt 1 + 1 / 1000) \<noteq> (0 - 1) / sqrt (1 + 1 / 1000 :: real)"
  proof -
    have lt: "sqrt (1 + 1 / 1000 :: real) < 1 + 1 / 1000"
      by (rule real_less_lsqrt) (simp_all add: power2_eq_square)
    have pos: "0 < sqrt (1 + 1 / 1000 :: real)" by simp
    show ?thesis using lt pos by (simp add: field_simps)
  qed
  ultimately show ?thesis using first z by blast
qed

text \<open>
  C7 as stated fails for an input with a constant channel. With \<open>gamma = 1\<close>,
  \<open>beta = 0\<close> and \<open>epsilon = 0\<close>, the second channel of the input, which holds 5 twice,
  has variance 0: its elements are divided 0 by 0 and come out as NaN, so that channel
  has neither mean 0 nor variance 1. The first channel, 0 and 2, comes out as -1 and 1.
\<close>

theorem constant_channel_is_not_standardized:
  "ebind (InstanceNormalization_build (InstanceNormalization_constructor affine_args)
            [None, Some 1, Some 2, Some 2])
     (\<lambda>layer. InstanceNormalization_call layer two_channels)
   = Inr \<lparr>shape = [1, 1, 2, 2], vals = [Some (- 1), None, Some 1, None]\<rparr>"
proof -
  define layer where "layer = \<lparr>axis = - 1, epsilon = 0, center = Some True, scale = Some True,
      gamma = Some (ones [2]), beta = Some (zeros [2])\<rparr>"
  have built: "InstanceNormalization_build (InstanceNormalization_constructor affine_args)
                 [None, Some 1, Some 2, Some 2] = Inr layer"
    by (simp add: InstanceNormalization_build_def InstanceNormalization_constructor_def
        affine_args_def layer_def truthy_def Let_def)
  have sh: "shape two_channels = [1, 1, 2, 2]" by (simp add: two_channels_def)
  have h: "channels_last (axis layer) two_channels"
    "weight_fits (scale layer) (gamma layer) two_channels"
    "weight_fits (center layer) (beta layer) two_channels"
    by (simp_all add: layer_def channels_last_def resolved_axis_def weight_fits_def truthy_def
        sh ones_def zeros_def)
  have idx: "map (unravel [1, 1, 2, 2]) [0..<prod_list [1, 1, 2, 2]]
               = [[0, 0, 0, 0], [0, 0, 0, 1], [0, 0, 1, 0], [0, 0, 1, 1]]"
    by code_simp
  have x: "tget two_channels [0, 0, 0, 0] = 0" "tget two_channels [0, 0, Suc 0, 0] = 2"
    by (simp_all add: tget_def two_channels_def)
  have w: "tget (ones [2]) [0] = 1" "tget (zeros [2]) [0] = 0"
    by (simp_all add: tget_def ones_def zeros_def)
  have ev: "expected_output layer two_channels [0, 0, 0, 0] = Some (- 1)"
    "expected_output layer two_channels [0, 0, 0, 1] = None"
    "expected_output layer two_channels [0, 0, 1, 0] = Some 1"
    "expected_output layer two_channels [0, 0, 1, 1] = None"
    by (simp_all add: expected_output_def expected_value_def normalized_value_def
        affine_value_def truthy_def layer_def x w stats_two_channels)
  have "InstanceNormalization_call layer two_channels
          = Inr (tensor_of (shape two_channels) (expected_output layer two_channels))"
    using h by (rule InstanceNormalization_call_output)
  also have "tensor_of (shape two_channels) (expected_output layer two_channels)
               = \<lparr>shape = [1, 1, 2, 2], vals = [Some (- 1), None, Some 1, None]\<rparr>"
    unfolding sh tensor_of_vals idx by (simp only: list.map ev)
  finally show ?thesis by (simp only: built ebind_Inr)
qed

text \<open>
  C5 (amended). A conditional layer with selector \<open>v\<close> and tables of \<open>length v\<close> rows
  computes what the plain layer with scaling and shifting switched on computes with the
  weights \<open>v \<cdot> gammaTable\<close> and \<open>v \<cdot> betaTable\<close>, the vector-matrix products that
  \<open>dot\<close> returns. For a selector that is one-hot at \<open>i\<close> these weights are row \<open>i\<close> of
  the tables, so the output is that of plain instance normalization with row \<open>i\<close>. For a
  layer with \<open>n > 0\<close> styles, \<open>build\<close> creates the selector that is one-hot at 0 and
  tables of shape \<open>[n, channels]\<close>, and the forward pass uses row 0. For a layer
  constructed without a style count, \<open>build\<close> creates the selector \<open>[1]\<close> and tables
  that hold no values, and the forward pass fails in \<open>dot\<close>.
\<close>

theorem conditional_is_plain_with_selected_rows:
  assumes "sw layer = Some v"
    and "gamma layer = Some gT" and "shape gT = [length v, cg]"
    and "beta layer = Some bT" and "shape bT = [length v, cb]"
  shows "dot v gT = Inr (weighted_rows v gT) \<and> dot v bT = Inr (weighted_rows v bT)
         \<and> (\<forall>c < cg. tget (weighted_rows v gT) [c]
                        = sum_list (map (\<lambda>s. v ! s * tget gT [s, c]) [0..<length v]))
         \<and> (\<forall>c < cb. tget (weighted_rows v bT) [c]
                        = sum_list (map (\<lambda>s. v ! s * tget bT [s, c]) [0..<length v]))
         \<and> ConditionalInstanceNormalization_call layer x =
             InstanceNormalization_call
               (effective_layer (axis layer) (epsilon layer)
                  (weighted_rows v gT) (weighted_rows v bT)) x
         \<and> (\<forall>i < length v. v = one_hot (length v) i \<longrightarrow>
               ConditionalInstanceNormalization_call layer x =
                 InstanceNormalization_call
                   (effective_layer (axis layer) (epsilon layer)
                      (table_row gT i) (table_row bT i)) x)
         \<and> (\<forall>n d inputShape. 0 < n \<and> style_num fresh = Some (int n)
               \<and> build_dim (axis fresh) inputShape = Some d
               \<longrightarrow> (\<exists>built. ConditionalInstanceNormalization_build fresh inputShape = Inr built
                      \<and> sw built = Some (one_hot n 0)
                      \<and> gamma built = Some (ones [n, d]) \<and> beta built = Some (zeros [n, d])
                      \<and> ConditionalInstanceNormalization_call built x =
                          InstanceNormalization_call
                            (effective_layer (axis fresh) (epsilon fresh)
                               (table_row (ones [n, d]) 0) (table_row (zeros [n, d]) 0)) x))
         \<and> (\<forall>d inputShape. style_num fresh = None
               \<and> build_dim (axis fresh) inputShape = Some d
               \<longrightarrow> (\<exists>built g0 b0. ConditionalInstanceNormalization_build fresh inputShape = Inr built
                      \<and> sw built = Some [1]
                      \<and> gamma built = Some g0 \<and> vals g0 = []
                      \<and> beta built = Some b0 \<and> vals b0 = []
                      \<and> ConditionalInstanceNormalization_call built x = Inl ShapeMismatch))"
proof -
  have d: "dot v gT = Inr (weighted_rows v gT)" "dot v bT = Inr (weighted_rows v bT)"
    using assms by (simp_all add: dot_weighted_rows)
  have wg: "tget (weighted_rows v gT) [c] = sum_list (map (\<lambda>s. v ! s * tget gT [s, c]) [0..<length v])"
    if "c < cg" for c
    using that assms(3) by (simp add: weighted_rows_def tget_tensor_of)
  have wb: "tget (weighted_rows v bT) [c] = sum_list (map (\<lambda>s. v ! s * tget bT [s, c]) [0..<length v])"
    if "c < cb" for c
    using that assms(5) by (simp add: weighted_rows_def tget_tensor_of)
  have eff: "ConditionalInstanceNormalization_call layer x =
             InstanceNormalization_call
               (effective_layer (axis layer) (epsilon layer)
                  (weighted_rows v gT) (weighted_rows v bT)) x"
    using assms by (rule ConditionalInstanceNormalization_call_effective)
  have hot: "ConditionalInstanceNormalization_call layer x =
                 InstanceNormalization_call
                   (effective_layer (axis layer) (epsilon layer)
                      (table_row gT i) (table_row bT i)) x"
    if "i < length v" "v = one_hot (length v) i" for i
  proof -
    have "weighted_rows v gT = table_row gT i" "weighted_rows v bT = table_row bT i"
      using weighted_rows_one_hot [OF that(1)] that(2) by simp_all
    then show ?thesis using eff by simp
  qed
  have bld: "\<exists>built. ConditionalInstanceNormalization_build fresh inputShape = Inr built
               \<and> sw built = Some (one_hot n 0)
               \<and> gamma built = Some (ones [n, d]) \<and> beta built = Some (zeros [n, d])
               \<and> ConditionalInstanceNormalization_call built x =
                   InstanceNormalization_call
                     (effective_layer (axis fresh) (epsilon fresh)
                        (table_row (ones [n, d]) 0) (table_row (zeros [n, d]) 0)) x"
    if n: "0 < n" and st: "style_num fresh = Some (int n)"
      and bd: "build_dim (axis fresh) inputShape = Some d"
    for n d inputShape
  proof -
    define built where "built = fresh\<lparr>gamma := Some (ones [n, d]), beta := Some (zeros [n, d]),
                                      sw := Some (one_hot n 0)\<rparr>"
    have bu: "ConditionalInstanceNormalization_build fresh inputShape = Inr built"
      unfolding built_def using n st bd by (rule ConditionalInstanceNormalization_build_styles)
    have b1: "sw built = Some (one_hot n 0)" "gamma built = Some (ones [n, d])"
      "beta built = Some (zeros [n, d])"
      "shape (ones [n, d]) = [length (one_hot n 0), d]"
      "shape (zeros [n, d]) = [length (one_hot n 0), d]"
      "axis built = axis fresh" "epsilon built = epsilon fresh"
      by (simp_all add: built_def ones_def zeros_def)
    have "ConditionalInstanceNormalization_call built x =
            InstanceNormalization_call
              (effective_layer (axis built) (epsilon built)
                 (weighted_rows (one_hot n 0) (ones [n, d]))
                 (weighted_rows (one_hot n 0) (zeros [n, d]))) x"
      by (rule ConditionalInstanceNormalization_call_effective [OF b1(1) b1(2) b1(4) b1(3) b1(5)])
    then have "ConditionalInstanceNormalization_call built x =
            InstanceNormalization_call
              (effective_layer (axis fresh) (epsilon fresh)
                 (table_row (ones [n, d]) 0) (table_row (zeros [n, d]) 0)) x"
      by (simp add: weighted_rows_one_hot [OF n] b1(6,7))
    then show ?thesis using bu b1(1-3) by blast
  qed
  have nostyle: "\<exists>built g0 b0. ConditionalInstanceNormalization_build fresh inputShape = Inr built
               \<and> sw built = Some [1]
               \<and> gamma built = Some g0 \<and> vals g0 = []
               \<and> beta built = Some b0 \<and> vals b0 = []
               \<and> ConditionalInstanceNormalization_call built x = Inl ShapeMismatch"
    if st: "style_num fresh = None" and bd: "build_dim (axis fresh) inputShape = Some d"
    for d inputShape
  proof -
    define built where "built = fresh\<lparr>gamma := Some (ones [0, d]), beta := Some (zeros [0, d]),
                                      sw := Some [1]\<rparr>"
    have bu: "ConditionalInstanceNormalization_build fresh inputShape = Inr built"
      unfolding built_def using st bd by (rule ConditionalInstanceNormalization_build_no_styles)
    have b1: "sw built = Some [1]" "gamma built = Some (ones [0, d])"
      "beta built = Some (zeros [0, d])"
      by (simp_all add: built_def)
    have e: "vals (ones [0, d]) = []" "vals (zeros [0, d]) = []"
      by (simp_all add: ones_def zeros_def)
    have "dot [1] (zeros [0, d]) = Inl ShapeMismatch" by (simp add: dot_def zeros_def)
    then have "ConditionalInstanceNormalization_call built x = Inl ShapeMismatch"
      by (rule ConditionalInstanceNormalization_call_no_row [OF b1(1) b1(3)])
    then show ?thesis using bu b1 e by blast
  qed
  show ?thesis using d wg wb eff hot bld nostyle by blast
qed

theorem conditional_is_plain_with_selected_rows_witness:
  "sw two_styles = Some (one_hot 2 1)
   \<and> ConditionalInstanceNormalization_call two_styles row_0_2 =
       InstanceNormalization_call
         (effective_layer (- 1) (1 / 1000) (table_row gammas_2_4 1)
            (table_row betas_3_7 1)) row_0_2
   \<and> table_row gammas_2_4 1 = \<lparr>shape = [1], vals = [4]\<rparr>
   \<and> table_row betas_3_7 1 = \<lparr>shape = [1], vals = [7]\<rparr>
   \<and> (\<exists>built. ConditionalInstanceNormalization_build
                  (ConditionalInstanceNormalization_constructor two_style_args)
                  [None, Some 1, Some 2, Some 1] = Inr built
          \<and> sw built = Some [1, 0]
          \<and> gamma built = Some \<lparr>shape = [2, 1], vals = [1, 1]\<rparr>
          \<and> beta built = Some \<lparr>shape = [2, 1], vals = [0, 0]\<rparr>
          \<and> ConditionalInstanceNormalization_call built row_0_2
              = Inr \<lparr>shape = [1, 1, 2, 1], vals = [Some (- 1000 / 1001), Some (1000 / 1001)]\<rparr>)
   \<and> (\<exists>built. ConditionalInstanceNormalization_build
                  (ConditionalInstanceNormalization_constructor no_args)
                  [None, Some 1, Some 2, Some 1] = Inr built
          \<and> sw built = Some [1]
          \<and> ConditionalInstanceNormalization_call built row_0_2 = Inl ShapeMismatch)"
proof -
  have h: "sw two_styles = Some (one_hot 2 1)"
    "gamma two_styles = Some gammas_2_4"
    "shape gammas_2_4 = [length (one_hot 2 1), 1]"
    "beta two_styles = Some betas_3_7"
    "shape betas_3_7 = [length (one_hot 2 1), 1]"
    by (simp_all add: two_styles_def gammas_2_4_def betas_3_7_def)
  let ?G = "gammas_2_4" and ?B = "betas_3_7"
  let ?two = "ConditionalInstanceNormalization_constructor two_style_args"
  let ?none = "ConditionalInstanceNormalization_constructor no_args"
  let ?sh = "[None, Some (1::nat), Some 2, Some 1]"
  have "\<forall>i < length (one_hot 2 1). one_hot 2 1 = one_hot (length (one_hot 2 1)) i \<longrightarrow>
          ConditionalInstanceNormalization_call two_styles row_0_2 =
            InstanceNormalization_call
              (effective_layer (axis two_styles) (epsilon two_styles)
                 (table_row ?G i) (table_row ?B i)) row_0_2"
    using conditional_is_plain_with_selected_rows [OF h, of row_0_2] by blast
  moreover have "1 < length (one_hot 2 1)" "one_hot 2 1 = one_hot (length (one_hot 2 1)) 1"
    by simp_all
  ultimately have "ConditionalInstanceNormalization_call two_styles row_0_2 =
            InstanceNormalization_call
              (effective_layer (axis two_styles) (epsilon two_styles)
                 (table_row ?G 1) (table_row ?B 1)) row_0_2"
    by blast
  moreover have "axis two_styles = - 1" "epsilon two_styles = 1 / 1000"
    by (simp_all add: two_styles_def)
  ultimately have first: "ConditionalInstanceNormalization_call two_styles row_0_2 =
       InstanceNormalization_call
         (effective_layer (- 1) (1 / 1000) (table_row gammas_2_4 1)
            (table_row betas_3_7 1)) row_0_2"
    by simp
  have rows: "table_row gammas_2_4 1 = \<lparr>shape = [1], vals = [4]\<rparr>"
    "table_row betas_3_7 1 = \<lparr>shape = [1], vals = [7]\<rparr>"
    by code_simp+
  have two: "\<exists>built. ConditionalInstanceNormalization_build ?two ?sh = Inr built
          \<and> sw built = Some [1, 0]
          \<and> gamma built = Some \<lparr>shape = [2, 1], vals = [1, 1]\<rparr>
          \<and> beta built = Some \<lparr>shape = [2, 1], vals = [0, 0]\<rparr>
          \<and> ConditionalInstanceNormalization_call built row_0_2
              = Inr \<lparr>shape = [1, 1, 2, 1], vals = [Some (- 1000 / 1001), Some (1000 / 1001)]\<rparr>"
  proof -
    let ?E = "effective_layer (- 1) (1 / 1000) \<lparr>shape = [1], vals = [1]\<rparr> \<lparr>shape = [1], vals = [0]\<rparr>"
    have sh: "shape row_0_2 = [1, 1, 2, 1]" by (simp add: row_0_2_def)
    have x: "tget row_0_2 [0, 0, 0, 0] = 0" "tget row_0_2 [0, 0, Suc 0, 0] = 2"
      by (simp_all add: tget_def row_0_2_def)
    have w: "tget \<lparr>shape = [Suc 0], vals = [1 :: real]\<rparr> [0] = 1"
      "tget \<lparr>shape = [Suc 0], vals = [0 :: real]\<rparr> [0] = 0"
      by (simp_all add: tget_def)
    have "0 < (2::nat) \<and> style_num ?two = Some (int 2) \<and> build_dim (axis ?two) ?sh = Some 1"
      by (simp add: two_style_args_def ConditionalInstanceNormalization_constructor_def
          build_dim_def)
    then obtain built where b: "ConditionalInstanceNormalization_build ?two ?sh = Inr built"
      "sw built = Some (one_hot 2 0)"
      "gamma built = Some (ones [2, 1])" "beta built = Some (zeros [2, 1])"
      and c: "ConditionalInstanceNormalization_call built row_0_2 =
                InstanceNormalization_call
                  (effective_layer (axis ?two) (epsilon ?two)
                     (table_row (ones [2, 1]) 0) (table_row (zeros [2, 1]) 0)) row_0_2"
      using conditional_is_plain_with_selected_rows [OF h, where fresh = ?two and x = row_0_2]
      by blast
    have lit: "one_hot 2 0 = [1, 0]" "ones [2, 1] = \<lparr>shape = [2, 1], vals = [1, 1]\<rparr>"
      "zeros [2, 1] = \<lparr>shape = [2, 1], vals = [0, 0]\<rparr>"
      by code_simp+
    have row0: "table_row (ones [2, 1]) 0 = \<lparr>shape = [1], vals = [1]\<rparr>"
      "table_row (zeros [2, 1]) 0 = \<lparr>shape = [1], vals = [0]\<rparr>"
      by code_simp+
    have "axis ?two = - 1" "epsilon ?two = 1 / 1000"
      by (simp_all add: two_style_args_def ConditionalInstanceNormalization_constructor_def)
    then have "ConditionalInstanceNormalization_call built row_0_2 = InstanceNormalization_call ?E row_0_2"
      using c by (simp only: row0)
    also have "\<dots> = Inr (finite_quotient (tensor_of (shape row_0_2) (expected_value ?E row_0_2)))"
      using stddev_plus_default_epsilon
      by (intro InstanceNormalization_call_expected)
        (simp_all add: effective_layer_def channels_last_def resolved_axis_def weight_fits_def
          truthy_def sh)
    also have "finite_quotient (tensor_of (shape row_0_2) (expected_value ?E row_0_2))
                 = \<lparr>shape = [1, 1, 2, 1], vals = [Some (- 1000 / 1001), Some (1000 / 1001)]\<rparr>"
      by (simp add: sh tensor_of_def expected_value_def normalized_value_def affine_value_def
          effective_layer_def truthy_def x w stats_row_0_2 numeral_2_eq_2 finite_quotient_def)
    finally have "ConditionalInstanceNormalization_call built row_0_2
              = Inr \<lparr>shape = [1, 1, 2, 1], vals = [Some (- 1000 / 1001), Some (1000 / 1001)]\<rparr>" .
    then show ?thesis using b lit by simp
  qed
  have none: "\<exists>built. ConditionalInstanceNormalization_build ?none ?sh = Inr built
          \<and> sw built = Some [1]
          \<and> ConditionalInstanceNormalization_call built row_0_2 = Inl ShapeMismatch"
  proof -
    have "style_num ?none = None \<and> build_dim (axis ?none) ?sh = Some 1"
      by (simp add: no_args_def ConditionalInstanceNormalization_constructor_def build_dim_def)
    then show ?thesis
      using conditional_is_plain_with_selected_rows [OF h, where fresh = ?none and x = row_0_2]
      by blast
  qed
  show ?thesis using h(1) first rows two none by blast
qed

text \<open>
  C5 as stated fails for the default-constructed layer. Constructed without a style
  count and built for inputs with one channel, the layer has the selector \<open>[1]\<close>, which
  is one-hot at 0, but tables that hold no values: its forward pass does not use row 0,
  it is rejected by \<open>dot\<close>.
\<close>

theorem default_constructed_layer_has_no_row:
  "map_sum id sw
     (ConditionalInstanceNormalization_build (ConditionalInstanceNormalization_constructor no_args)
        [None, Some 1, Some 2, Some 1]) = Inr (Some [1])
   \<and> map_sum id (\<lambda>layer. map_option vals (gamma layer))
     (ConditionalInstanceNormalization_build (ConditionalInstanceNormalization_constructor no_args)
        [None, Some 1, Some 2, Some 1]) = Inr (Some [])
   \<and> ebind (ConditionalInstanceNormalization_build
              (ConditionalInstanceNormalization_constructor no_args)
              [None, Some 1, Some 2, Some 1])
       (\<lambda>layer. ConditionalInstanceNormalization_call layer row_0_2) = Inl ShapeMismatch"
proof -
  let ?L = "\<lparr>axis = - 1, epsilon = 1 / 1000, center = None, scale = None,
          gamma = Some \<lparr>shape = [0, 1], vals = []\<rparr>, beta = Some \<lparr>shape = [0, 1], vals = []\<rparr>,
          style_num = None, sw = Some [1]\<rparr>"
  have built: "ConditionalInstanceNormalization_build
                 (ConditionalInstanceNormalization_constructor no_args)
                 [None, Some 1, Some 2, Some 1] = Inr ?L"
    by code_simp
  have "dot [1] \<lparr>shape = [0, 1], vals = []\<rparr> = Inl ShapeMismatch" by (simp add: dot_def)
  then have c: "ConditionalInstanceNormalization_call ?L row_0_2 = Inl ShapeMismatch"
    by (intro ConditionalInstanceNormalization_call_no_row [where v = "[1]"]) simp_all
  have s1: "sw ?L = Some [1]" by simp
  have s2: "map_option vals (gamma ?L) = Some []" by simp
  show ?thesis
    unfolding built by (simp only: map_sum.simps ebind_Inr s1 s2 c simp_thms)
qed

text \<open>
  C9 (amended). In the plain forward pass, with the channel axis last, the value is
  multiplied by the channel's \<open>gamma\<close> exactly when \<open>scale\<close> is on and the channel's
  \<open>beta\<close> is added exactly when \<open>center\<close> is on, each independently of the other. In
  the conditional forward pass of a layer that has a selector, the options are not
  consulted: whatever \<open>scale\<close> and \<open>center\<close> are set to, the result is the same, the
  standardized value times the selected \<open>gamma\<close> plus the selected \<open>beta\<close>.
\<close>

theorem toggles_of_the_two_layers:
  "(channels_last (axis layer) x
      \<and> weight_fits (scale layer) (gamma layer) x \<and> weight_fits (center layer) (beta layer) x
      \<and> (\<forall>c < last (shape x). sqrt (channel_var x c) + epsilon layer \<noteq> 0)
    \<longrightarrow> (\<exists>y. InstanceNormalization_call layer x = Inr (finite_quotient y)
          \<and> (\<forall>i. valid_index (shape x) i \<longrightarrow>
                tget y i =
                  (if truthy (scale layer)
                   then normalized_value (epsilon layer) x i * tget (the (gamma layer)) [last i]
                   else normalized_value (epsilon layer) x i)
                  + (if truthy (center layer) then tget (the (beta layer)) [last i] else 0))))
   \<and> (sw cond \<noteq> None
      \<longrightarrow> ConditionalInstanceNormalization_call (cond\<lparr>center := ce, scale := sc\<rparr>) x
            = ConditionalInstanceNormalization_call cond x)
   \<and> (channels_last (axis cond) x \<and> sw cond = Some v
        \<and> gamma cond = Some gT \<and> shape gT = [length v, last (shape x)]
        \<and> beta cond = Some bT \<and> shape bT = [length v, last (shape x)]
        \<and> (\<forall>c < last (shape x). sqrt (channel_var x c) + epsilon cond \<noteq> 0)
      \<longrightarrow> (\<exists>y. ConditionalInstanceNormalization_call cond x = Inr (finite_quotient y)
            \<and> (\<forall>i. valid_index (shape x) i \<longrightarrow>
                  tget y i = normalized_value (epsilon cond) x i
                                * tget (weighted_rows v gT) [last i]
                              + tget (weighted_rows v bT) [last i])))"
proof -
  have plain: "\<exists>y. InstanceNormalization_call layer x = Inr (finite_quotient y)
          \<and> (\<forall>i. valid_index (shape x) i \<longrightarrow>
                tget y i =
                  (if truthy (scale layer)
                   then normalized_value (epsilon layer) x i * tget (the (gamma layer)) [last i]
                   else normalized_value (epsilon layer) x i)
                  + (if truthy (center layer) then tget (the (beta layer)) [last i] else 0))"
    if h: "channels_last (axis layer) x"
      "weight_fits (scale layer) (gamma layer) x" "weight_fits (center layer) (beta layer) x"
      "\<forall>c < last (shape x). sqrt (channel_var x c) + epsilon layer \<noteq> 0"
  proof -
    have "InstanceNormalization_call layer x
            = Inr (finite_quotient (tensor_of (shape x) (expected_value layer x)))"
      using h by (rule InstanceNormalization_call_expected)
    moreover have "tget (tensor_of (shape x) (expected_value layer x)) i =
                  (if truthy (scale layer)
                   then normalized_value (epsilon layer) x i * tget (the (gamma layer)) [last i]
                   else normalized_value (epsilon layer) x i)
                  + (if truthy (center layer) then tget (the (beta layer)) [last i] else 0)"
      if "valid_index (shape x) i" for i
      using that by (simp add: tget_tensor_of expected_value_def affine_value_def Let_def)
    ultimately show ?thesis by blast
  qed
  have same: "ConditionalInstanceNormalization_call (cond\<lparr>center := ce, scale := sc\<rparr>) x
            = ConditionalInstanceNormalization_call cond x"
    if some: "sw cond \<noteq> None"
  proof -
    obtain s where "sw cond = Some s" using some by auto
    then show ?thesis
      by (simp add: ConditionalInstanceNormalization_call_def Let_def cong: if_cong)
  qed
  have condl: "\<exists>y. ConditionalInstanceNormalization_call cond x = Inr (finite_quotient y)
            \<and> (\<forall>i. valid_index (shape x) i \<longrightarrow>
                  tget y i = normalized_value (epsilon cond) x i
                                * tget (weighted_rows v gT) [last i]
                              + tget (weighted_rows v bT) [last i])"
    if h: "channels_last (axis cond) x" "sw cond = Some v"
      "gamma cond = Some gT" "shape gT = [length v, last (shape x)]"
      "beta cond = Some bT" "shape bT = [length v, last (shape x)]"
      "\<forall>c < last (shape x). sqrt (channel_var x c) + epsilon cond \<noteq> 0"
  proof -
    let ?E = "effective_layer (axis cond) (epsilon cond) (weighted_rows v gT) (weighted_rows v bT)"
    have "ConditionalInstanceNormalization_call cond x = InstanceNormalization_call ?E x"
      using h(2-6) by (rule ConditionalInstanceNormalization_call_effective)
    moreover have "InstanceNormalization_call ?E x
                     = Inr (finite_quotient (tensor_of (shape x) (expected_value ?E x)))"
      using h(1,4,6,7)
      by (intro InstanceNormalization_call_expected)
        (simp_all add: effective_layer_def weight_fits_def truthy_def weighted_rows_def)
    moreover have "tget (tensor_of (shape x) (expected_value ?E x)) i =
                     normalized_value (epsilon cond) x i * tget (weighted_rows v gT) [last i]
                       + tget (weighted_rows v bT) [last i]"
      if "valid_index (shape x) i" for i
      using that
      by (simp add: tget_tensor_of expected_value_def affine_value_def Let_def
          effective_layer_def truthy_def)
    ultimately show ?thesis by auto
  qed
  show ?thesis using plain same condl by blast
qed


theorem toggles_of_the_two_layers_witness:
  "channels_last (axis scale_only) row_0_2
   \<and> (\<exists>y. InstanceNormalization_call scale_only row_0_2 = Inr (finite_quotient y)
          \<and> tget y [0, 0, 0, 0] = - 2 \<and> tget y [0, 0, 1, 0] = 2)
   \<and> sw toggles_off \<noteq> None
   \<and> ConditionalInstanceNormalization_call (toggles_off\<lparr>center := Some True, scale := Some True\<rparr>)
        row_0_2 = ConditionalInstanceNormalization_call toggles_off row_0_2
   \<and> (\<exists>y. ConditionalInstanceNormalization_call toggles_off row_0_2 = Inr (finite_quotient y)
          \<and> tget y [0, 0, 0, 0] = 1 \<and> tget y [0, 0, 1, 0] = 5)"
proof -
  let ?gT = "scale_by_2" and ?bT = "shift_by_3"
  note T = toggles_of_the_two_layers [of scale_only row_0_2 toggles_off "Some True" "Some True"
      "[1]" ?gT ?bT]
  have sh: "shape row_0_2 = [1, 1, 2, 1]" by (simp add: row_0_2_def)
  have x: "tget row_0_2 [0, 0, 0, 0] = 0" "tget row_0_2 [0, 0, Suc 0, 0] = 2"
    by (simp_all add: tget_def row_0_2_def)
  have n: "normalized_value 0 row_0_2 [0, 0, 0, 0] = - 1"
    "normalized_value 0 row_0_2 [0, 0, Suc 0, 0] = 1"
    by (simp_all add: normalized_value_def x stats_row_0_2)
  have h1: "channels_last (axis scale_only) row_0_2"
    "weight_fits (scale scale_only) (gamma scale_only) row_0_2"
    "weight_fits (center scale_only) (beta scale_only) row_0_2"
    "\<forall>c < last (shape row_0_2). sqrt (channel_var row_0_2 c) + epsilon scale_only \<noteq> 0"
    by (simp_all add: scale_only_def channels_last_def resolved_axis_def weight_fits_def
        truthy_def sh stats_row_0_2)
  obtain y1 where y1: "InstanceNormalization_call scale_only row_0_2 = Inr (finite_quotient y1)"
    and t1: "\<And>i. valid_index (shape row_0_2) i \<Longrightarrow>
                tget y1 i =
                  (if truthy (scale scale_only)
                   then normalized_value (epsilon scale_only) row_0_2 i
                          * tget (the (gamma scale_only)) [last i]
                   else normalized_value (epsilon scale_only) row_0_2 i)
                  + (if truthy (center scale_only) then tget (the (beta scale_only)) [last i] else 0)"
    using T h1 by blast
  have v1: "tget y1 [0, 0, 0, 0] = - 2" "tget y1 [0, 0, 1, 0] = 2"
    using t1 [of "[0, 0, 0, 0]"] t1 [of "[0, 0, 1, 0]"]
    by (simp_all add: sh scale_only_def truthy_def n tget_def)
  have h2: "sw toggles_off \<noteq> None" by (simp add: toggles_off_def)
  have same: "ConditionalInstanceNormalization_call
                (toggles_off\<lparr>center := Some True, scale := Some True\<rparr>) row_0_2
              = ConditionalInstanceNormalization_call toggles_off row_0_2"
    using T h2 by blast
  have h3: "channels_last (axis toggles_off) row_0_2 \<and> sw toggles_off = Some [1]
        \<and> gamma toggles_off = Some ?gT \<and> shape ?gT = [length [1::real], last (shape row_0_2)]
        \<and> beta toggles_off = Some ?bT \<and> shape ?bT = [length [1::real], last (shape row_0_2)]
        \<and> (\<forall>c < last (shape row_0_2). sqrt (channel_var row_0_2 c) + epsilon toggles_off \<noteq> 0)"
    by (simp add: toggles_off_def channels_last_def resolved_axis_def sh stats_row_0_2
        scale_by_2_def shift_by_3_def)
  obtain y2 where y2: "ConditionalInstanceNormalization_call toggles_off row_0_2
                         = Inr (finite_quotient y2)"
    and t2: "\<And>i. valid_index (shape row_0_2) i \<Longrightarrow>
                tget y2 i = normalized_value (epsilon toggles_off) row_0_2 i
                              * tget (weighted_rows [1] ?gT) [last i]
                            + tget (weighted_rows [1] ?bT) [last i]"
    using T h3 by blast
  have w: "tget (weighted_rows [1] ?gT) [0] = 2" "tget (weighted_rows [1] ?bT) [0] = 3"
    by code_simp+
  have v2: "tget y2 [0, 0, 0, 0] = 1" "tget y2 [0, 0, 1, 0] = 5"
    using t2 [of "[0, 0, 0, 0]"] t2 [of "[0, 0, 1, 0]"]
    by (simp_all add: sh toggles_off_def n w)
  show ?thesis using h1(1) y1 v1 h2 same y2 v2 by blast
qed

text \<open>
  C9 as stated fails for the conditional layer. With \<open>scale\<close> and \<open>center\<close> both switched
  off, tables that scale by 2 and shift by 3, and the pixels 0 and 2 (standardized: -1
  and 1), the conditional forward pass still scales and shifts and returns 1 and 5; the
  plain layer with both options off returns -1 and 1.
\<close>

theorem conditional_layer_ignores_the_toggles:
  "ConditionalInstanceNormalization_call toggles_off row_0_2
     = Inr \<lparr>shape = [1, 1, 2, 1], vals = [Some 1, Some 5]\<rparr>
   \<and> InstanceNormalization_call (InstanceNormalization_constructor plain_args) row_0_2
     = Inr \<lparr>shape = [1, 1, 2, 1], vals = [Some (- 1), Some 1]\<rparr>"
proof -
  let ?gT = "scale_by_2" and ?bT = "shift_by_3"
  let ?E = "effective_layer (- 1) 0 (weighted_rows [1] ?gT) (weighted_rows [1] ?bT)"
  let ?P = "InstanceNormalization_constructor plain_args"
  have sh: "shape row_0_2 = [1, 1, 2, 1]" by (simp add: row_0_2_def)
  have x: "tget row_0_2 [0, 0, 0, 0] = 0" "tget row_0_2 [0, 0, Suc 0, 0] = 2"
    by (simp_all add: tget_def row_0_2_def)
  have n: "normalized_value 0 row_0_2 [0, 0, 0, 0] = - 1"
    "normalized_value 0 row_0_2 [0, 0, Suc 0, 0] = 1"
    by (simp_all add: normalized_value_def x stats_row_0_2)
  have w: "weighted_rows [1] ?gT = \<lparr>shape = [1], vals = [2]\<rparr>"
    "weighted_rows [1] ?bT = \<lparr>shape = [1], vals = [3]\<rparr>"
    by code_simp+
  have "ConditionalInstanceNormalization_call toggles_off row_0_2 = InstanceNormalization_call ?E row_0_2"
    using ConditionalInstanceNormalization_call_effective [of toggles_off "[1]" ?gT 1 ?bT 1 row_0_2]
    by (simp add: toggles_off_def scale_by_2_def [THEN arg_cong, of shape]
        shift_by_3_def [THEN arg_cong, of shape])
  also have "\<dots> = Inr (finite_quotient (tensor_of (shape row_0_2) (expected_value ?E row_0_2)))"
    by (rule InstanceNormalization_call_expected)
      (simp_all add: effective_layer_def channels_last_def resolved_axis_def weight_fits_def
        truthy_def sh w stats_row_0_2)
  also have "finite_quotient (tensor_of (shape row_0_2) (expected_value ?E row_0_2))
               = \<lparr>shape = [1, 1, 2, 1], vals = [Some 1, Some 5]\<rparr>"
    by (simp add: sh tensor_of_def expected_value_def affine_value_def effective_layer_def
        truthy_def n w tget_def numeral_2_eq_2 finite_quotient_def)
  finally have c: "ConditionalInstanceNormalization_call toggles_off row_0_2
                     = Inr \<lparr>shape = [1, 1, 2, 1], vals = [Some 1, Some 5]\<rparr>" .
  have "InstanceNormalization_call ?P row_0_2
          = Inr (finite_quotient (tensor_of (shape row_0_2) (expected_value ?P row_0_2)))"
    by (rule InstanceNormalization_call_expected)
      (simp_all add: InstanceNormalization_constructor_def plain_args_def channels_last_def
        resolved_axis_def weight_fits_def truthy_def sh stats_row_0_2)
  also have "finite_quotient (tensor_of (shape row_0_2) (expected_value ?P row_0_2))
               = \<lparr>shape = [1, 1, 2, 1], vals = [Some (- 1), Some 1]\<rparr>"
    by (simp add: sh tensor_of_def expected_value_def affine_value_def
        InstanceNormalization_constructor_def plain_args_def truthy_def n numeral_2_eq_2
        finite_quotient_def)
  finally show ?thesis using c by simp
qed

text \<open>
  C10. Each constructor maps an absent \<open>axis\<close> to \<open>-1\<close> and an absent \<open>epsilon\<close> to
  \<open>1/1000\<close>, whatever the other arguments are, and keeps a value that is given. The
  forward passes of a layer constructed without the two arguments use these values
  whatever weights the layer holds later: every element is standardized with the
  statistics of its last-axis channel and with \<open>1/1000\<close> added to the standard deviation.
  This holds for the plain layer, for the conditional layer with a selector, and for the
  conditional layer as the constructor leaves it, without a selector.
\<close>

theorem defaults_of_the_normalization_layers:
  "axis (InstanceNormalization_constructor (args\<lparr>arg_axis := None\<rparr>)) = - 1
   \<and> epsilon (InstanceNormalization_constructor (args\<lparr>arg_epsilon := None\<rparr>)) = 1 / 1000
   \<and> axis (InstanceNormalization_constructor (args\<lparr>arg_axis := Some a\<rparr>)) = a
   \<and> epsilon (InstanceNormalization_constructor (args\<lparr>arg_epsilon := Some e\<rparr>)) = e
   \<and> axis (ConditionalInstanceNormalization_constructor (cargs\<lparr>arg_axis := None\<rparr>)) = - 1
   \<and> epsilon (ConditionalInstanceNormalization_constructor (cargs\<lparr>arg_epsilon := None\<rparr>))
       = 1 / 1000
   \<and> axis (ConditionalInstanceNormalization_constructor (cargs\<lparr>arg_axis := Some a\<rparr>)) = a
   \<and> epsilon (ConditionalInstanceNormalization_constructor (cargs\<lparr>arg_epsilon := Some e\<rparr>)) = e
   \<and> sw (ConditionalInstanceNormalization_constructor cargs) = None
   \<and> (shape x \<noteq> [] \<and> weight_fits (arg_scale args) g x \<and> weight_fits (arg_center args) b x
      \<longrightarrow> InstanceNormalization_call
            ((InstanceNormalization_constructor (args\<lparr>arg_axis := None, arg_epsilon := None\<rparr>))
               \<lparr>gamma := g, beta := b\<rparr>) x
          = Inr (finite_quotient (tensor_of (shape x)
              (\<lambda>i. affine_value (truthy (arg_scale args)) (truthy (arg_center args)) g b (last i)
                     ((tget x i - channel_mean x (last i))
                        / (sqrt (channel_var x (last i)) + 1 / 1000))))))
   \<and> (shape x \<noteq> [] \<and> shape gT = [length v, last (shape x)]
        \<and> shape bT = [length v, last (shape x)]
      \<longrightarrow> ConditionalInstanceNormalization_call
            ((ConditionalInstanceNormalization_constructor
                (cargs\<lparr>arg_axis := None, arg_epsilon := None\<rparr>))
               \<lparr>gamma := Some gT, beta := Some bT, sw := Some v\<rparr>) x
          = Inr (finite_quotient (tensor_of (shape x)
              (\<lambda>i. (tget x i - channel_mean x (last i))
                       / (sqrt (channel_var x (last i)) + 1 / 1000)
                       * tget (weighted_rows v gT) [last i]
                     + tget (weighted_rows v bT) [last i]))))
   \<and> (shape x \<noteq> [] \<and> weight_fits (arg_scale cargs) g x \<and> weight_fits (arg_center cargs) b x
      \<longrightarrow> ConditionalInstanceNormalization_call
            ((ConditionalInstanceNormalization_constructor
                (cargs\<lparr>arg_axis := None, arg_epsilon := None\<rparr>))
               \<lparr>gamma := g, beta := b\<rparr>) x
          = Inr (finite_quotient (tensor_of (shape x)
              (\<lambda>i. affine_value (truthy (arg_scale cargs)) (truthy (arg_center cargs)) g b (last i)
                     ((tget x i - channel_mean x (last i))
                        / (sqrt (channel_var x (last i)) + 1 / 1000))))))"
proof -
  let ?L = "(InstanceNormalization_constructor (args\<lparr>arg_axis := None, arg_epsilon := None\<rparr>))
               \<lparr>gamma := g, beta := b\<rparr>"
  let ?C = "(ConditionalInstanceNormalization_constructor
                (cargs\<lparr>arg_axis := None, arg_epsilon := None\<rparr>))
               \<lparr>gamma := Some gT, beta := Some bT, sw := Some v\<rparr>"
  let ?N = "(ConditionalInstanceNormalization_constructor
                (cargs\<lparr>arg_axis := None, arg_epsilon := None\<rparr>))
               \<lparr>gamma := g, beta := b\<rparr>"
  have plain: "InstanceNormalization_call ?L x
          = Inr (finite_quotient (tensor_of (shape x)
              (\<lambda>i. affine_value (truthy (arg_scale args)) (truthy (arg_center args)) g b (last i)
                     ((tget x i - channel_mean x (last i))
                        / (sqrt (channel_var x (last i)) + 1 / 1000)))))"
    if h: "shape x \<noteq> []" "weight_fits (arg_scale args) g x" "weight_fits (arg_center args) b x"
  proof -
    have "InstanceNormalization_call ?L x
            = Inr (finite_quotient (tensor_of (shape x) (expected_value ?L x)))"
      using h stddev_plus_default_epsilon
      by (intro InstanceNormalization_call_expected)
        (simp_all add: InstanceNormalization_constructor_def channels_last_def resolved_axis_def)
    moreover have "expected_value ?L x =
              (\<lambda>i. affine_value (truthy (arg_scale args)) (truthy (arg_center args)) g b (last i)
                     ((tget x i - channel_mean x (last i))
                        / (sqrt (channel_var x (last i)) + 1 / 1000)))"
      by (rule ext)
        (simp add: expected_value_def normalized_value_def InstanceNormalization_constructor_def)
    ultimately show ?thesis by simp
  qed
  have cond: "ConditionalInstanceNormalization_call ?C x
          = Inr (finite_quotient (tensor_of (shape x)
              (\<lambda>i. (tget x i - channel_mean x (last i))
                       / (sqrt (channel_var x (last i)) + 1 / 1000)
                       * tget (weighted_rows v gT) [last i]
                     + tget (weighted_rows v bT) [last i])))"
    if h: "shape x \<noteq> []" "shape gT = [length v, last (shape x)]"
      "shape bT = [length v, last (shape x)]"
  proof -
    let ?E = "effective_layer (- 1) (1 / 1000) (weighted_rows v gT) (weighted_rows v bT)"
    have "ConditionalInstanceNormalization_call ?C x = InstanceNormalization_call ?E x"
      using ConditionalInstanceNormalization_call_effective
        [of ?C v gT "last (shape x)" bT "last (shape x)" x] h
      by (simp add: ConditionalInstanceNormalization_constructor_def)
    moreover have "InstanceNormalization_call ?E x
                     = Inr (finite_quotient (tensor_of (shape x) (expected_value ?E x)))"
      using h stddev_plus_default_epsilon
      by (intro InstanceNormalization_call_expected)
        (simp_all add: effective_layer_def channels_last_def resolved_axis_def weight_fits_def
          truthy_def weighted_rows_def)
    moreover have "expected_value ?E x =
              (\<lambda>i. (tget x i - channel_mean x (last i))
                       / (sqrt (channel_var x (last i)) + 1 / 1000)
                       * tget (weighted_rows v gT) [last i]
                     + tget (weighted_rows v bT) [last i])"
      by (rule ext)
        (simp add: expected_value_def normalized_value_def affine_value_def effective_layer_def
          truthy_def Let_def)
    ultimately show ?thesis by simp
  qed
  have nosel: "ConditionalInstanceNormalization_call ?N x
          = Inr (finite_quotient (tensor_of (shape x)
              (\<lambda>i. affine_value (truthy (arg_scale cargs)) (truthy (arg_center cargs)) g b (last i)
                     ((tget x i - channel_mean x (last i))
                        / (sqrt (channel_var x (last i)) + 1 / 1000)))))"
    if h: "shape x \<noteq> []" "weight_fits (arg_scale cargs) g x" "weight_fits (arg_center cargs) b x"
  proof -
    let ?P = "\<lparr>axis = - 1, epsilon = 1 / 1000, center = arg_center cargs,
               scale = arg_scale cargs, gamma = g, beta = b\<rparr>"
    have "ConditionalInstanceNormalization_call ?N x = InstanceNormalization_call ?P x"
      using h(1)
      by (intro ConditionalInstanceNormalization_call_no_selector)
        (simp_all add: ConditionalInstanceNormalization_constructor_def resolved_axis_def)
    moreover have "InstanceNormalization_call ?P x
                     = Inr (finite_quotient (tensor_of (shape x) (expected_value ?P x)))"
      using h stddev_plus_default_epsilon
      by (intro InstanceNormalization_call_expected)
        (simp_all add: channels_last_def resolved_axis_def)
    moreover have "expected_value ?P x =
              (\<lambda>i. affine_value (truthy (arg_scale cargs)) (truthy (arg_center cargs)) g b (last i)
                     ((tget x i - channel_mean x (last i))
                        / (sqrt (channel_var x (last i)) + 1 / 1000)))"
      by (rule ext) (simp add: expected_value_def normalized_value_def)
    ultimately show ?thesis by simp
  qed
  show ?thesis
    using plain cond nosel
    by (simp add: InstanceNormalization_constructor_def
        ConditionalInstanceNormalization_constructor_def)
qed

theorem defaults_of_the_normalization_layers_witness:
  "shape batch_of_two \<noteq> [] \<and> weight_fits (arg_scale default_args) None batch_of_two
   \<and> InstanceNormalization_call
       ((InstanceNormalization_constructor (default_args\<lparr>arg_axis := None, arg_epsilon := None\<rparr>))
          \<lparr>gamma := None, beta := None\<rparr>) batch_of_two
     = Inr \<lparr>shape = [2, 1, 1, 1], vals = [Some (- 1000 / 1001), Some (1000 / 1001)]\<rparr>
   \<and> shape gammas_2_4 = [length (one_hot 2 1), last (shape row_0_2)]
   \<and> ConditionalInstanceNormalization_call
       ((ConditionalInstanceNormalization_constructor
           (two_style_args\<lparr>arg_axis := None, arg_epsilon := None\<rparr>))
          \<lparr>gamma := Some gammas_2_4, beta := Some betas_3_7, sw := Some (one_hot 2 1)\<rparr>) row_0_2
     = Inr \<lparr>shape = [1, 1, 2, 1], vals = [Some (7 - 4000 / 1001), Some (7 + 4000 / 1001)]\<rparr>
   \<and> weight_fits (arg_scale no_args) None batch_of_two
   \<and> ConditionalInstanceNormalization_call
       ((ConditionalInstanceNormalization_constructor
           (no_args\<lparr>arg_axis := None, arg_epsilon := None\<rparr>))
          \<lparr>gamma := None, beta := None\<rparr>) batch_of_two
     = Inr \<lparr>shape = [2, 1, 1, 1], vals = [Some (- 1000 / 1001), Some (1000 / 1001)]\<rparr>"
proof -
  note T = defaults_of_the_normalization_layers
    [where args = default_args and cargs = no_args and x = batch_of_two
       and g = None and b = None and gT = gammas_2_4 and v = "one_hot 2 1" and bT = betas_3_7]
  note U = defaults_of_the_normalization_layers
    [where args = default_args and cargs = two_style_args and x = row_0_2
       and g = None and b = None and gT = gammas_2_4 and v = "one_hot 2 1" and bT = betas_3_7]
  have sh: "shape batch_of_two = [2, 1, 1, 1]" "shape row_0_2 = [1, 1, 2, 1]"
    by (simp_all add: batch_of_two_def row_0_2_def)
  have h1: "shape batch_of_two \<noteq> []" "weight_fits (arg_scale default_args) None batch_of_two"
    "weight_fits (arg_center default_args) None batch_of_two"
    by (simp_all add: sh weight_fits_def default_args_def truthy_def)
  have h3: "weight_fits (arg_scale no_args) None batch_of_two"
    "weight_fits (arg_center no_args) None batch_of_two"
    by (simp_all add: weight_fits_def no_args_def truthy_def)
  have x: "tget batch_of_two [0, 0, 0, 0] = 0" "tget batch_of_two [Suc 0, 0, 0, 0] = 2"
    "tget row_0_2 [0, 0, 0, 0] = 0" "tget row_0_2 [0, 0, Suc 0, 0] = 2"
    by (simp_all add: tget_def batch_of_two_def row_0_2_def)
  have "InstanceNormalization_call
       ((InstanceNormalization_constructor (default_args\<lparr>arg_axis := None, arg_epsilon := None\<rparr>))
          \<lparr>gamma := None, beta := None\<rparr>) batch_of_two
     = Inr (finite_quotient (tensor_of (shape batch_of_two)
              (\<lambda>i. affine_value (truthy (arg_scale default_args)) (truthy (arg_center default_args))
                     None None (last i)
                     ((tget batch_of_two i - channel_mean batch_of_two (last i))
                        / (sqrt (channel_var batch_of_two (last i)) + 1 / 1000)))))"
    using T h1 by blast
  also have "finite_quotient (tensor_of (shape batch_of_two)
              (\<lambda>i. affine_value (truthy (arg_scale default_args)) (truthy (arg_center default_args))
                     None None (last i)
                     ((tget batch_of_two i - channel_mean batch_of_two (last i))
                        / (sqrt (channel_var batch_of_two (last i)) + 1 / 1000))))
             = \<lparr>shape = [2, 1, 1, 1], vals = [Some (- 1000 / 1001), Some (1000 / 1001)]\<rparr>"
    by (simp add: sh tensor_of_def affine_value_def default_args_def truthy_def x
        stats_batch_of_two numeral_2_eq_2 finite_quotient_def)
  finally have p: "InstanceNormalization_call
       ((InstanceNormalization_constructor (default_args\<lparr>arg_axis := None, arg_epsilon := None\<rparr>))
          \<lparr>gamma := None, beta := None\<rparr>) batch_of_two
     = Inr \<lparr>shape = [2, 1, 1, 1], vals = [Some (- 1000 / 1001), Some (1000 / 1001)]\<rparr>" .
  have h2: "shape row_0_2 \<noteq> []"
    "shape gammas_2_4 = [length (one_hot 2 1), last (shape row_0_2)]"
    "shape betas_3_7 = [length (one_hot 2 1), last (shape row_0_2)]"
    by (simp_all add: sh gammas_2_4_def betas_3_7_def)
  have w: "tget (weighted_rows (one_hot 2 1) gammas_2_4) [0] = 4"
    "tget (weighted_rows (one_hot 2 1) betas_3_7) [0] = 7"
    by code_simp+
  have "ConditionalInstanceNormalization_call
       ((ConditionalInstanceNormalization_constructor
           (two_style_args\<lparr>arg_axis := None, arg_epsilon := None\<rparr>))
          \<lparr>gamma := Some gammas_2_4, beta := Some betas_3_7, sw := Some (one_hot 2 1)\<rparr>) row_0_2
     = Inr (finite_quotient (tensor_of (shape row_0_2)
              (\<lambda>i. (tget row_0_2 i - channel_mean row_0_2 (last i))
                       / (sqrt (channel_var row_0_2 (last i)) + 1 / 1000)
                       * tget (weighted_rows (one_hot 2 1) gammas_2_4) [last i]
                     + tget (weighted_rows (one_hot 2 1) betas_3_7) [last i])))"
    using U h2 by blast
  also have "finite_quotient (tensor_of (shape row_0_2)
              (\<lambda>i. (tget row_0_2 i - channel_mean row_0_2 (last i))
                       / (sqrt (channel_var row_0_2 (last i)) + 1 / 1000)
                       * tget (weighted_rows (one_hot 2 1) gammas_2_4) [last i]
                     + tget (weighted_rows (one_hot 2 1) betas_3_7) [last i]))
             = \<lparr>shape = [1, 1, 2, 1], vals = [Some (7 - 4000 / 1001), Some (7 + 4000 / 1001)]\<rparr>"
    using w by (simp add: sh tensor_of_def x stats_row_0_2 numeral_2_eq_2 finite_quotient_def)
  finally have c: "ConditionalInstanceNormalization_call
       ((ConditionalInstanceNormalization_constructor
           (two_style_args\<lparr>arg_axis := None, arg_epsilon := None\<rparr>))
          \<lparr>gamma := Some gammas_2_4, beta := Some betas_3_7, sw := Some (one_hot 2 1)\<rparr>) row_0_2
     = Inr \<lparr>shape = [1, 1, 2, 1], vals = [Some (7 - 4000 / 1001), Some (7 + 4000 / 1001)]\<rparr>" .
  have "ConditionalInstanceNormalization_call
       ((ConditionalInstanceNormalization_constructor
           (no_args\<lparr>arg_axis := None, arg_epsilon := None\<rparr>))
          \<lparr>gamma := None, beta := None\<rparr>) batch_of_two
     = Inr (finite_quotient (tensor_of (shape batch_of_two)
              (\<lambda>i. affine_value (truthy (arg_scale no_args)) (truthy (arg_center no_args))
                     None None (last i)
                     ((tget batch_of_two i - channel_mean batch_of_two (last i))
                        / (sqrt (channel_var batch_of_two (last i)) + 1 / 1000)))))"
    using T h1(1) h3 by blast
  also have "finite_quotient (tensor_of (shape batch_of_two)
              (\<lambda>i. affine_value (truthy (arg_scale no_args)) (truthy (arg_center no_args))
                     None None (last i)
                     ((tget batch_of_two i - channel_mean batch_of_two (last i))
                        / (sqrt (channel_var batch_of_two (last i)) + 1 / 1000))))
             = \<lparr>shape = [2, 1, 1, 1], vals = [Some (- 1000 / 1001), Some (1000 / 1001)]\<rparr>"
    by (simp add: sh tensor_of_def affine_value_def no_args_def truthy_def x
        stats_batch_of_two numeral_2_eq_2 finite_quotient_def)
  finally have n: "ConditionalInstanceNormalization_call
       ((ConditionalInstanceNormalization_constructor
           (no_args\<lparr>arg_axis := None, arg_epsilon := None\<rparr>))
          \<lparr>gamma := None, beta := None\<rparr>) batch_of_two
     = Inr \<lparr>shape = [2, 1, 1, 1], vals = [Some (- 1000 / 1001), Some (1000 / 1001)]\<rparr>" .
  show ?thesis using h1 h2 h3 p c n by blast
qed

section \<open>Claims about deprocessing\<close>

text \<open>
  C6 (amended). The two versions of the deprocessing layer behave differently, and
  neither raises an error for any activation. The version in \<open>deprocess.ts\<close> returns its
  input for every activation. The rescaling version returns \<open>(x + 1) * 127.5\<close>
  elementwise for \<open>tanh\<close> and \<open>x * 255\<close> elementwise for every other activation,
  \<open>sigmoid\<close> included; both keep the shape.
\<close>

theorem deprocess_of_the_two_versions:
  "DeprocessStylizedImage_call layer x = Inr x
   \<and> (wf_tensor x \<longrightarrow>
        DeprocessStylizedImage_call_rescaling layer x =
          Inr \<lparr>shape = shape x,
               vals = map (\<lambda>v. if activation layer = Some ''tanh'' then (v + 1) * (255 / 2)
                               else v * 255) (vals x)\<rparr>)"
proof -
  have "DeprocessStylizedImage_call_rescaling layer x =
          Inr \<lparr>shape = shape x,
               vals = map (\<lambda>v. if activation layer = Some ''tanh'' then (v + 1) * (255 / 2)
                               else v * 255) (vals x)\<rparr>"
    if wf: "wf_tensor x"
  proof (cases "activation layer = Some ''tanh''")
    case True
    have a: "tadd x (scalar 1) = Inr \<lparr>shape = shape x, vals = map (\<lambda>v. v + 1) (vals x)\<rparr>"
      using wf by (simp add: tadd_def broadcast_op_scalar_vals)
    have "wf_tensor \<lparr>shape = shape x, vals = map (\<lambda>v. v + 1) (vals x)\<rparr>"
      using wf by (simp add: wf_tensor_def)
    then have "tmul \<lparr>shape = shape x, vals = map (\<lambda>v. v + 1) (vals x)\<rparr> (scalar (255 / 2))
                 = Inr \<lparr>shape = shape x, vals = map (\<lambda>v. (v + 1) * (255 / 2)) (vals x)\<rparr>"
      by (simp add: tmul_def broadcast_op_scalar_vals comp_def)
    then show ?thesis using True a by (simp add: DeprocessStylizedImage_call_rescaling_def)
  next
    case False
    then show ?thesis
      using wf by (simp add: DeprocessStylizedImage_call_rescaling_def tmul_def
          broadcast_op_scalar_vals)
  qed
  then show ?thesis by (simp add: DeprocessStylizedImage_call_def)
qed

theorem deprocess_of_the_two_versions_witness:
  "wf_tensor activations
   \<and> DeprocessStylizedImage_call tanh_layer activations = Inr activations
   \<and> DeprocessStylizedImage_call_rescaling tanh_layer activations
       = Inr \<lparr>shape = [3], vals = [0, 255 / 2, 255]\<rparr>"
proof -
  have wf: "wf_tensor activations" by (simp add: activations_def wf_tensor_def)
  have "DeprocessStylizedImage_call tanh_layer activations = Inr activations"
    using deprocess_of_the_two_versions [of tanh_layer activations] by blast
  moreover have "DeprocessStylizedImage_call_rescaling tanh_layer activations
       = Inr \<lparr>shape = [3], vals = [0, 255 / 2, 255]\<rparr>"
    using deprocess_of_the_two_versions [of tanh_layer activations] wf
    by (simp add: tanh_layer_def activations_def)
  ultimately show ?thesis using wf by blast
qed

text \<open>
  C6 as stated fails. In the rescaling version, mode \<open>sigmoid\<close> multiplies by 255 and is
  not the identity, and an unknown mode such as \<open>relu\<close> is not rejected but treated in
  the same way; in the version of \<open>deprocess.ts\<close>, mode \<open>tanh\<close> returns the input
  unchanged instead of rescaling it.
\<close>

theorem deprocess_modes_differ_from_the_claim:
  "DeprocessStylizedImage_call_rescaling
     (DeprocessStylizedImage_constructor_rescaling sigmoid_args) activations
     = Inr \<lparr>shape = [3], vals = [- 255, 0, 255]\<rparr>
   \<and> DeprocessStylizedImage_call_rescaling
       (DeprocessStylizedImage_constructor_rescaling relu_args) activations
     = Inr \<lparr>shape = [3], vals = [- 255, 0, 255]\<rparr>
   \<and> DeprocessStylizedImage_call (DeprocessStylizedImage_constructor tanh_args) activations
     = Inr \<lparr>shape = [3], vals = [- 1, 0, 1]\<rparr>
   \<and> DeprocessStylizedImage_call (DeprocessStylizedImage_constructor relu_args) activations
     = Inr \<lparr>shape = [3], vals = [- 1, 0, 1]\<rparr>"
  by code_simp

end
